theory Spec2Isabelle
  imports Complex_Main
begin

section \<open>Python values, dictionaries and exceptions\<close>

text \<open>
  The artifact and every section of it are plain Python dictionaries
  (\<^verbatim>\<open>Dict[str, Any]\<close>). A dictionary is an association list in insertion order,
  as Python keeps it; a float is a rational; an object that is neither a container nor a
  scalar (a UUID, a datetime) is \<open>PObj\<close> with its class name and its text. A character
  is read as one code point below 256.
\<close>

datatype pyval =
    PNone
  | PBool bool
  | PInt int
  | PFloat rat
  | PStr string
  | PList "pyval list"
  | PDict "(string \<times> pyval) list"
  | PObj string string

type_synonym pydict = "(string \<times> pyval) list"

text \<open>\<^verbatim>\<open>d.get(k)\<close> without a default, as an option.\<close>

definition dict_get :: "(string \<times> 'v) list \<Rightarrow> string \<Rightarrow> 'v option" where
  "dict_get d k = map_of d k"

text \<open>\<^verbatim>\<open>k in d\<close>.\<close>

definition dict_has :: "(string \<times> 'v) list \<Rightarrow> string \<Rightarrow> bool" where
  "dict_has d k = (k \<in> set (map fst d))"

text \<open>\<^verbatim>\<open>d[k] = v\<close>: an existing key keeps its place, a new key goes last.\<close>

fun dict_set :: "(string \<times> 'v) list \<Rightarrow> string \<Rightarrow> 'v \<Rightarrow> (string \<times> 'v) list" where
  "dict_set [] k v = [(k, v)]"
| "dict_set ((k', v') # d) k v = (if k' = k then (k, v) # d else (k', v') # dict_set d k v)"

text \<open>
  Exceptions are values. Only subclasses of \<^verbatim>\<open>Exception\<close> are modelled: an
  \<^verbatim>\<open>except Exception\<close> clause catches every \<open>exn\<close>; interrupts and exits
  (\<^verbatim>\<open>BaseException\<close>) are outside the model.
\<close>

datatype exn_class =
    ValueError
  | KeyError
  | TypeError
  | AttributeError
  | IndexError
  | UnboundLocalError
  | TranscriptsDisabled
  | NoTranscriptFound
  | DownloadError
  | JSONDecodeError
  | ValidationError
  | RuntimeError
  | OtherException

datatype exn = Exn exn_class string

text \<open>\<^verbatim>\<open>str(exc)\<close>\<close>

fun str_exc :: "exn \<Rightarrow> string" where
  "str_exc (Exn c m) = m"

fun exc_class :: "exn \<Rightarrow> exn_class" where
  "exc_class (Exn c m) = c"

section \<open>schema.py: the result and failure model\<close>

datatype FailureType =
    INPUT_ERROR
  | SOURCE_ERROR
  | EXTRACTION_ERROR
  | STRUCTURE_ERROR
  | INTERPRETATION_ERROR

text \<open>The value of each member (\<^verbatim>\<open>class FailureType(str, Enum)\<close>).\<close>

fun FailureType_value :: "FailureType \<Rightarrow> string" where
  "FailureType_value INPUT_ERROR = ''input_error''"
| "FailureType_value SOURCE_ERROR = ''source_error''"
| "FailureType_value EXTRACTION_ERROR = ''extraction_error''"
| "FailureType_value STRUCTURE_ERROR = ''structure_error''"
| "FailureType_value INTERPRETATION_ERROR = ''interpretation_error''"

text \<open>
  Field names are global in a theory, so the fields of \<^verbatim>\<open>StageFailure\<close> carry the
  prefix \<open>sf_\<close>; those of \<^verbatim>\<open>StageResult\<close> keep the source's names.
\<close>

record StageFailure =
  sf_stage :: string
  sf_type :: FailureType
  sf_cause :: string
  sf_impact :: string
  sf_suggested_fixes :: "string list"

record StageResult =
  stage_name :: string
  success :: bool
  warnings :: "string list"
  errors :: "string list"
  failures :: "StageFailure list"
  suggested_fixes :: "string list"
  execution_time_ms :: "rat option"

record Diagnostics =
  d_stage_status :: "(string \<times> StageResult) list"
  d_warnings :: "string list"
  d_errors :: "string list"
  d_suggested_fixes :: "string list"

text \<open>
  \<^verbatim>\<open>model_dump(by_alias=False, exclude_none=True)\<close>: the fields in declaration order,
  a field whose value is \<^verbatim>\<open>None\<close> left out. Only \<open>execution_time_ms\<close> can be
  \<^verbatim>\<open>None\<close> here.
\<close>

definition StageFailure_model_dump :: "StageFailure \<Rightarrow> pyval" where
  "StageFailure_model_dump f = PDict
     [(''stage'', PStr (sf_stage f)),
      (''type'', PStr (FailureType_value (sf_type f))),
      (''cause'', PStr (sf_cause f)),
      (''impact'', PStr (sf_impact f)),
      (''suggested_fixes'', PList (map PStr (sf_suggested_fixes f)))]"

definition StageResult_model_dump :: "StageResult \<Rightarrow> pyval" where
  "StageResult_model_dump r = PDict
     ([(''stage_name'', PStr (stage_name r)),
       (''success'', PBool (success r)),
       (''warnings'', PList (map PStr (warnings r))),
       (''errors'', PList (map PStr (errors r))),
       (''failures'', PList (map StageFailure_model_dump (failures r))),
       (''suggested_fixes'', PList (map PStr (suggested_fixes r)))]
      @ (case execution_time_ms r of None \<Rightarrow> [] | Some t \<Rightarrow> [(''execution_time_ms'', PFloat t)]))"

definition Diagnostics_model_dump :: "Diagnostics \<Rightarrow> pydict" where
  "Diagnostics_model_dump d =
     [(''stage_status'', PDict (map (\<lambda>(k, r). (k, StageResult_model_dump r)) (d_stage_status d))),
      (''warnings'', PList (map PStr (d_warnings d))),
      (''errors'', PList (map PStr (d_errors d))),
      (''suggested_fixes'', PList (map PStr (d_suggested_fixes d)))]"

section \<open>diagnostics/collector.py\<close>

text \<open>
  The collector is a mutable object: each method takes the object's state and returns
  what the call returns (or the exception it raises) together with the state afterwards.
  The private attributes \<^verbatim>\<open>_stage_status\<close>, \<^verbatim>\<open>_global_warnings\<close>, ... are
  written without the leading underscore.
\<close>

record DiagnosticsCollector =
  run_id :: string
  stage_status :: "(string \<times> StageResult) list"
  global_warnings :: "string list"
  global_errors :: "string list"
  global_suggested_fixes :: "string list"

definition DiagnosticsCollector_init :: "string \<Rightarrow> DiagnosticsCollector" where
  "DiagnosticsCollector_init rid =
     \<lparr> run_id = rid, stage_status = [], global_warnings = [], global_errors = [],
       global_suggested_fixes = [] \<rparr>"

definition add_stage_result ::
  "DiagnosticsCollector \<Rightarrow> StageResult \<Rightarrow> (exn + unit) \<times> DiagnosticsCollector" where
  "add_stage_result self result =
     (if dict_has (stage_status self) (stage_name result)
      then (Inl (Exn ValueError (''Duplicate stage result for '' @ stage_name result)), self)
      else (Inr (),
            self\<lparr> stage_status := dict_set (stage_status self) (stage_name result) result,
                  global_warnings := global_warnings self @ warnings result,
                  global_errors := global_errors self @ errors result,
                  global_suggested_fixes :=
                    foldl (\<lambda>fixes failure. fixes @ sf_suggested_fixes failure)
                      (global_suggested_fixes self @ suggested_fixes result)
                      (failures result) \<rparr>))"

definition has_fatal_failure :: "DiagnosticsCollector \<Rightarrow> bool \<times> DiagnosticsCollector" where
  "has_fatal_failure self = (list_ex (\<lambda>(k, result). \<not> success result) (stage_status self), self)"

text \<open>
  \<^verbatim>\<open>list(set(xs))\<close> keeps one copy of each element, in the iteration order of the
  set, which Python does not specify. Within one process that order is a function of the
  list the set was built from; the function is the parameter \<open>set_list\<close>, and
  \<open>set_list_ok\<close> says what Python guarantees of it.
\<close>

definition set_list_ok :: "(string list \<Rightarrow> string list) \<Rightarrow> bool" where
  "set_list_ok set_list = (\<forall>xs. distinct (set_list xs) \<and> set (set_list xs) = set xs)"

definition build_diagnostics ::
  "(string list \<Rightarrow> string list) \<Rightarrow> DiagnosticsCollector \<Rightarrow> pydict \<times> DiagnosticsCollector" where
  "build_diagnostics set_list self =
     (Diagnostics_model_dump
        \<lparr> d_stage_status = stage_status self,
          d_warnings = global_warnings self,
          d_errors = global_errors self,
          d_suggested_fixes = set_list (global_suggested_fixes self) \<rparr>,
      self)"

text \<open>
  \<open>submit_all\<close> is the collector after a sequence of \<open>add_stage_result\<close> calls,
  accepted or rejected.
\<close>

definition submit_all :: "DiagnosticsCollector \<Rightarrow> StageResult list \<Rightarrow> DiagnosticsCollector" where
  "submit_all self results = foldl (\<lambda>c r. snd (add_stage_result c r)) self results"

section \<open>Python string operations\<close>

definition starts_with :: "string \<Rightarrow> string \<Rightarrow> bool" where
  "starts_with p s = (take (length p) s = p)"

text \<open>\<^verbatim>\<open>sub in s\<close>\<close>

fun py_in :: "string \<Rightarrow> string \<Rightarrow> bool" where
  "py_in sub [] = (sub = [])"
| "py_in sub (c # cs) = (starts_with sub (c # cs) \<or> py_in sub cs)"

text \<open>
  \<^verbatim>\<open>s.split(sep)\<close> for a separator \<open>x # xs\<close> (Python raises on an empty one, and the
  source only splits at \<^verbatim>\<open>"v="\<close> and \<^verbatim>\<open>"&"\<close>). \<open>acc\<close> holds the current piece,
  reversed.
\<close>

fun py_split_from :: "char \<Rightarrow> string \<Rightarrow> string \<Rightarrow> string \<Rightarrow> string list" where
  "py_split_from x xs acc [] = [rev acc]"
| "py_split_from x xs acc (c # cs) =
     (if c = x \<and> starts_with xs cs
      then rev acc # py_split_from x xs [] (drop (length xs) cs)
      else py_split_from x xs (c # acc) cs)"

fun py_split :: "string \<Rightarrow> string \<Rightarrow> exn + string list" where
  "py_split s [] = Inl (Exn ValueError ''empty separator'')"
| "py_split s (x # xs) = Inr (py_split_from x xs [] s)"

text \<open>\<^verbatim>\<open>s.replace(old, new)\<close> for a non-empty \<open>old = x # xs\<close>.\<close>

fun py_replace_from :: "char \<Rightarrow> string \<Rightarrow> string \<Rightarrow> string \<Rightarrow> string" where
  "py_replace_from x xs new [] = []"
| "py_replace_from x xs new (c # cs) =
     (if c = x \<and> starts_with xs cs
      then new @ py_replace_from x xs new (drop (length xs) cs)
      else c # py_replace_from x xs new cs)"

text \<open>\<^verbatim>\<open>sep.join(parts)\<close>\<close>

fun py_join :: "string \<Rightarrow> string list \<Rightarrow> string" where
  "py_join sep [] = []"
| "py_join sep [p] = p"
| "py_join sep (p # q # ps) = p @ sep @ py_join sep (q # ps)"

text \<open>\<^verbatim>\<open>c.isspace()\<close> for a code point below 256, and \<^verbatim>\<open>s.strip()\<close>.\<close>

definition py_isspace :: "char \<Rightarrow> bool" where
  "py_isspace c =
     (let n = (of_char c :: nat)
      in (9 \<le> n \<and> n \<le> 13) \<or> (28 \<le> n \<and> n \<le> 32) \<or> n = 133 \<or> n = 160)"

definition py_strip :: "string \<Rightarrow> string" where
  "py_strip s = rev (dropWhile py_isspace (rev (dropWhile py_isspace s)))"

text \<open>\<^verbatim>\<open>os.path.join(a, b)\<close> on POSIX: an absolute \<open>b\<close> replaces \<open>a\<close>.\<close>

definition os_path_join :: "string \<Rightarrow> string \<Rightarrow> string" where
  "os_path_join a b =
     (if starts_with ''/'' b then b
      else if a = [] \<or> last a = CHR ''/'' then a @ b
      else a @ ''/'' @ b)"

section \<open>Effects: external calls, module state, exceptions\<close>

text \<open>
  The transcription subsystem talks to the caption client, the file system, the
  \<^verbatim>\<open>yt-dlp\<close> process, the transcription model and the clock. What each of them
  answers is a field of \<open>env\<close>; the model is proved for every \<open>env\<close>. The \<open>world\<close> is
  the state that the calls change: the module-level model cache of
  \<^verbatim>\<open>whisper.py\<close>, the number of clock readings so far, and the trace of the
  external calls made, in order.
\<close>

datatype call =
    ImportCaptionApi
  | GetTranscript string
  | Makedirs string
  | TemporaryDirectory
  | SubprocessRun "string list"
  | LoadModel string string
  | ModelTranscribe string
  | TmpCleanup string

record env =
  import_caption_api :: "exn option"
  get_transcript :: "string \<Rightarrow> exn + string list"
  makedirs :: "string \<Rightarrow> exn option"
  temporary_directory :: "exn + string"
  subprocess_run :: "string list \<Rightarrow> exn option"
  load_model :: "string \<Rightarrow> string \<Rightarrow> exn option"
  model_transcribe :: "string \<Rightarrow> exn + string option"
  tmp_cleanup :: "string \<Rightarrow> exn option"
  time_time :: "nat \<Rightarrow> rat"
  DEVICE :: string

record world =
  MODEL_loaded :: bool
  clock_reads :: nat
  calls :: "call list"

text \<open>
  A computation over a state \<open>'s\<close> returns a value or raises, and leaves a state behind.
  The state is the \<open>world\<close> in the transcription subsystem and the artifact in a stage
  (a stage mutates the artifact in place, so what it wrote before raising stays written).
\<close>

type_synonym ('s, 'a) eff = "'s \<Rightarrow> (exn + 'a) \<times> 's"

definition ret :: "'a \<Rightarrow> ('s, 'a) eff" where
  "ret x = (\<lambda>w. (Inr x, w))"

definition raise :: "exn \<Rightarrow> ('s, 'a) eff" where
  "raise e = (\<lambda>w. (Inl e, w))"

text \<open>Sequencing: an exception of the first part skips the second.\<close>

definition then_do :: "('s, 'a) eff \<Rightarrow> ('a \<Rightarrow> ('s, 'b) eff) \<Rightarrow> ('s, 'b) eff" where
  "then_do m f = (\<lambda>w. case m w of (Inl e, w') \<Rightarrow> (Inl e, w') | (Inr x, w') \<Rightarrow> f x w')"

text \<open>\<^verbatim>\<open>try: m  except Exception as e: h e\<close>\<close>

definition try_except :: "('s, 'a) eff \<Rightarrow> (exn \<Rightarrow> ('s, 'a) eff) \<Rightarrow> ('s, 'a) eff" where
  "try_except m h = (\<lambda>w. case m w of (Inl e, w') \<Rightarrow> h e w' | (Inr x, w') \<Rightarrow> (Inr x, w'))"

text \<open>A pure computation that may raise.\<close>

definition lift :: "exn + 'a \<Rightarrow> ('s, 'a) eff" where
  "lift r = (\<lambda>w. (r, w))"

text \<open>An external call: it is recorded in the trace and answers as \<open>env\<close> says.\<close>

definition ext_call :: "call \<Rightarrow> exn + 'a \<Rightarrow> (world, 'a) eff" where
  "ext_call c answer = (\<lambda>w. (answer, w\<lparr>calls := calls w @ [c]\<rparr>))"

definition unit_answer :: "exn option \<Rightarrow> exn + unit" where
  "unit_answer r = (case r of None \<Rightarrow> Inr () | Some e \<Rightarrow> Inl e)"

text \<open>\<^verbatim>\<open>time.time()\<close>\<close>

definition read_time :: "env \<Rightarrow> (world, rat) eff" where
  "read_time env = (\<lambda>w. (Inr (time_time env (clock_reads w)), w\<lparr>clock_reads := Suc (clock_reads w)\<rparr>))"

section \<open>transcription/schema.py\<close>

text \<open>
  The fields of \<^verbatim>\<open>TranscriptionResult\<close> that share a name with a field of
  \<^verbatim>\<open>StageResult\<close>, or with an Isabelle keyword (\<open>method\<close>), carry the prefix \<open>t_\<close>, those of \<^verbatim>\<open>TranscriptionConfig\<close>
  the prefix \<open>cfg_\<close> (\<open>transcribe\<close> is also the coordinator's name).
\<close>

record TranscriptionConfig =
  cfg_download_audio_dir :: "string option"
  cfg_transcribe :: bool

record TranscriptionResult =
  t_success :: bool
  transcript_text :: string
  audio_path :: "string option"
  t_method :: "string option"
  t_warnings :: "string list"
  t_errors :: "string list"
  t_suggested_fixes :: "string list"
  execution_time_sec :: rat

text \<open>The constructor with the dataclass defaults.\<close>

definition TranscriptionResult_init :: "bool \<Rightarrow> TranscriptionResult" where
  "TranscriptionResult_init s =
     \<lparr> t_success = s, transcript_text = [], audio_path = None, t_method = None,
       t_warnings = [], t_errors = [], t_suggested_fixes = [], execution_time_sec = 0 \<rparr>"

section \<open>transcription/captions.py\<close>

text \<open>The same function is defined in \<^verbatim>\<open>captions.py\<close> and in \<^verbatim>\<open>whisper.py\<close>.\<close>

definition extract_video_id :: "string \<Rightarrow> exn + string" where
  "extract_video_id url =
     (if py_in ''v='' url
      then (case py_split url ''v='' of
              Inl e \<Rightarrow> Inl e
            | Inr (p0 # p1 # ps) \<Rightarrow>
                (case py_split p1 ''&'' of
                   Inl e \<Rightarrow> Inl e
                 | Inr (q0 # qs) \<Rightarrow> Inr q0
                 | Inr [] \<Rightarrow> Inl (Exn IndexError ''list index out of range''))
            | Inr _ \<Rightarrow> Inl (Exn IndexError ''list index out of range''))
      else Inl (Exn ValueError ''Invalid YouTube URL''))"

text \<open>
  The two imports are the first statements of the \<^verbatim>\<open>try\<close> block. When one of them
  raises, the names \<^verbatim>\<open>TranscriptsDisabled\<close> and \<^verbatim>\<open>NoTranscriptFound\<close> are unbound
  locals, and evaluating the first \<^verbatim>\<open>except\<close> clause raises
  \<^verbatim>\<open>UnboundLocalError\<close>, which no clause of the same statement catches. The
  message is that of Python 3.11.
\<close>

definition unbound_TranscriptsDisabled :: exn where
  "unbound_TranscriptsDisabled =
     Exn UnboundLocalError
       (''cannot access local variable '' @ [CHR 0x27] @ ''TranscriptsDisabled'' @ [CHR 0x27]
        @ '' where it is not associated with a value'')"

definition get_captions :: "env \<Rightarrow> string \<Rightarrow> (world, TranscriptionResult) eff" where
  "get_captions env youtube_url =
     then_do (ext_call ImportCaptionApi (Inr (import_caption_api env)))
       (\<lambda>import_error. case import_error of
          Some e \<Rightarrow> raise unbound_TranscriptsDisabled
        | None \<Rightarrow>
            try_except
              (then_do (lift (extract_video_id youtube_url))
                 (\<lambda>video_id.
              then_do (ext_call (GetTranscript video_id) (get_transcript env video_id))
                 (\<lambda>transcript.
              ret ((TranscriptionResult_init True)
                     \<lparr> transcript_text := py_join '' '' transcript,
                       t_method := Some ''captions'' \<rparr>))))
              (\<lambda>e.
                 if exc_class e = TranscriptsDisabled \<or> exc_class e = NoTranscriptFound
                 then ret ((TranscriptionResult_init False)
                             \<lparr> t_warnings := [''YouTube captions unavailable''],
                               t_suggested_fixes := [''Fallback to audio transcription''] \<rparr>)
                 else ret ((TranscriptionResult_init False)
                             \<lparr> t_errors := [str_exc e],
                               t_suggested_fixes := [''Retry caption fetch''] \<rparr>)))"

section \<open>transcription/whisper.py\<close>

text \<open>\<^verbatim>\<open>_load_model\<close>, called with the default model name.\<close>

definition load_model_cached :: "env \<Rightarrow> string \<Rightarrow> (world, unit) eff" where
  "load_model_cached env model_name =
     (\<lambda>w. if MODEL_loaded w then (Inr (), w)
          else then_do (ext_call (LoadModel model_name (DEVICE env))
                          (unit_answer (load_model env model_name (DEVICE env))))
                 (\<lambda>u w'. (Inr (), w'\<lparr>MODEL_loaded := True\<rparr>)) w)"

definition yt_dlp_command :: "string \<Rightarrow> string \<Rightarrow> string list" where
  "yt_dlp_command youtube_url output_path =
     [''yt-dlp'', ''-f'', ''bestaudio'', ''--extract-audio'', ''--audio-format'', ''wav'',
      ''-o'', py_replace_from CHR ''.'' ''wav'' ''.%(ext)s'' output_path, youtube_url]"

definition download_audio :: "env \<Rightarrow> string \<Rightarrow> string \<Rightarrow> (world, unit) eff" where
  "download_audio env youtube_url output_path =
     ext_call (SubprocessRun (yt_dlp_command youtube_url output_path))
       (unit_answer (subprocess_run env (yt_dlp_command youtube_url output_path)))"

text \<open>
  The body of the \<^verbatim>\<open>try\<close> block. \<open>save_dir\<close> is truthy when it is a non-empty
  string. The first step yields the audio path and, in the temporary case, the
  directory to clean up (\<open>tmpdir\<close> is \<open>None\<close> exactly when \<open>save_dir\<close> is truthy).
  \<open>whisper_result\<close> is the value of \<^verbatim>\<open>whisper_result.get("text")\<close>, \<open>None\<close> when the key
  is missing.
\<close>

definition transcribe_audio_body ::
  "env \<Rightarrow> string \<Rightarrow> string option \<Rightarrow> bool \<Rightarrow> (world, TranscriptionResult) eff" where
  "transcribe_audio_body env youtube_url save_dir do_transcribe =
     then_do
       (case save_dir of
          Some (d # ds) \<Rightarrow>
            then_do (lift (extract_video_id youtube_url))
              (\<lambda>video_id.
            then_do (ext_call (Makedirs (d # ds)) (unit_answer (makedirs env (d # ds))))
              (\<lambda>u. ret (os_path_join (d # ds) (video_id @ ''.wav''), None)))
        | _ \<Rightarrow>
            then_do (ext_call TemporaryDirectory (temporary_directory env))
              (\<lambda>tmpdir. ret (os_path_join tmpdir ''audio.wav'', Some tmpdir)))
       (\<lambda>(path, tmpdir).
     then_do (download_audio env youtube_url path)
       (\<lambda>u.
     let result = (TranscriptionResult_init True)
                    \<lparr> audio_path := (case tmpdir of None \<Rightarrow> Some path | Some t \<Rightarrow> None),
                      t_method := Some ''whisper'',
                      t_warnings := [''Used audio fallback (slower)''] \<rparr>
     in
     then_do
       (if do_transcribe
        then then_do (load_model_cached env ''base'')
               (\<lambda>model.
             then_do (ext_call (ModelTranscribe path) (model_transcribe env path))
               (\<lambda>whisper_result.
             let text = py_strip (case whisper_result of None \<Rightarrow> [] | Some t \<Rightarrow> t)
             in ret (if text = []
                     then result\<lparr> t_success := False,
                                 t_errors := [''Whisper returned empty transcript''],
                                 t_suggested_fixes := [''Check audio quality'', ''Try larger model''] \<rparr>
                     else result\<lparr> transcript_text := text \<rparr>)))
        else ret result)
       (\<lambda>result.
     then_do (case tmpdir of
                Some t \<Rightarrow> ext_call (TmpCleanup t) (unit_answer (tmp_cleanup env t))
              | None \<Rightarrow> ret ())
       (\<lambda>u. ret result))))"

definition transcribe_audio ::
  "env \<Rightarrow> string \<Rightarrow> string option \<Rightarrow> bool \<Rightarrow> (world, TranscriptionResult) eff" where
  "transcribe_audio env youtube_url save_dir do_transcribe =
     try_except (transcribe_audio_body env youtube_url save_dir do_transcribe)
       (\<lambda>e. ret ((TranscriptionResult_init False)
                    \<lparr> t_errors := [str_exc e],
                      t_suggested_fixes := [''Ensure yt-dlp/whisper installed'', ''Check ffmpeg''] \<rparr>))"

section \<open>transcription/core.py\<close>

definition transcribe :: "env \<Rightarrow> string \<Rightarrow> TranscriptionConfig \<Rightarrow> (world, TranscriptionResult) eff" where
  "transcribe env youtube_url config =
     then_do (read_time env)
       (\<lambda>start.
     then_do (get_captions env youtube_url)
       (\<lambda>captions_result.
     if t_success captions_result
     then then_do (read_time env)
            (\<lambda>now. ret (captions_result\<lparr> execution_time_sec := now - start \<rparr>))
     else
       then_do (transcribe_audio env youtube_url (cfg_download_audio_dir config) (cfg_transcribe config))
         (\<lambda>whisper_result.
       then_do (read_time env)
         (\<lambda>now.
       ret (whisper_result
              \<lparr> execution_time_sec := now - start,
                t_warnings := t_warnings whisper_result @ t_warnings captions_result,
                t_errors := t_errors whisper_result @ t_errors captions_result,
                t_suggested_fixes :=
                  t_suggested_fixes whisper_result @ t_suggested_fixes captions_result \<rparr>)))))"

text \<open>Which calls reach the transcription model, and which acquire audio.\<close>

fun is_model_call :: "call \<Rightarrow> bool" where
  "is_model_call (LoadModel n d) = True"
| "is_model_call (ModelTranscribe p) = True"
| "is_model_call c = False"

fun is_audio_call :: "call \<Rightarrow> bool" where
  "is_audio_call (SubprocessRun cmd) = True"
| "is_audio_call (Makedirs d) = True"
| "is_audio_call TemporaryDirectory = True"
| "is_audio_call c = False"

text \<open>A call of the \<^verbatim>\<open>yt-dlp\<close> process that ended normally is among \<open>cs\<close>.\<close>

definition audio_acquired :: "env \<Rightarrow> call list \<Rightarrow> bool" where
  "audio_acquired env cs =
     list_ex (\<lambda>c. case c of SubprocessRun cmd \<Rightarrow> subprocess_run env cmd = None | _ \<Rightarrow> False) cs"

text \<open>
  In \<open>env\<close>, every step that \<open>transcribe_audio\<close> takes apart from the model ends
  normally: with a directory to keep the audio in, the video id is found, the directory is
  made and the \<^verbatim>\<open>yt-dlp\<close> process ends normally; without one, the temporary
  directory is created, the process ends normally and the directory is removed.
\<close>

definition audio_steps_succeed :: "env \<Rightarrow> string \<Rightarrow> string option \<Rightarrow> bool" where
  "audio_steps_succeed env youtube_url save_dir =
     (case save_dir of
        Some (d # ds) \<Rightarrow>
          (case extract_video_id youtube_url of
             Inl e \<Rightarrow> False
           | Inr video_id \<Rightarrow>
               makedirs env (d # ds) = None
               \<and> subprocess_run env
                    (yt_dlp_command youtube_url (os_path_join (d # ds) (video_id @ ''.wav''))) = None)
      | _ \<Rightarrow>
          (case temporary_directory env of
             Inl e \<Rightarrow> False
           | Inr tmpdir \<Rightarrow>
               subprocess_run env
                 (yt_dlp_command youtube_url (os_path_join tmpdir ''audio.wav'')) = None
               \<and> tmp_cleanup env tmpdir = None))"

text \<open>The call that removes the temporary directory.\<close>

fun is_cleanup_call :: "call \<Rightarrow> bool" where
  "is_cleanup_call (TmpCleanup t) = True"
| "is_cleanup_call c = False"

section \<open>More of Python: truthiness, lower case, items of the artifact\<close>

text \<open>\<^verbatim>\<open>bool(v)\<close>\<close>

fun truthy :: "pyval \<Rightarrow> bool" where
  "truthy PNone = False"
| "truthy (PBool b) = b"
| "truthy (PInt i) = (i \<noteq> 0)"
| "truthy (PFloat x) = (x \<noteq> 0)"
| "truthy (PStr s) = (s \<noteq> [])"
| "truthy (PList vs) = (vs \<noteq> [])"
| "truthy (PDict d) = (d \<noteq> [])"
| "truthy (PObj c t) = True"

text \<open>\<^verbatim>\<open>a or b\<close>\<close>

definition py_or :: "pyval \<Rightarrow> pyval \<Rightarrow> pyval" where
  "py_or a b = (if truthy a then a else b)"

text \<open>\<^verbatim>\<open>d.get(k, default)\<close>\<close>

definition dict_get_default :: "pydict \<Rightarrow> string \<Rightarrow> pyval \<Rightarrow> pyval" where
  "dict_get_default d k dflt = (case dict_get d k of None \<Rightarrow> dflt | Some v \<Rightarrow> v)"

text \<open>\<^verbatim>\<open>s.lower()\<close> on code points below 256.\<close>

definition py_lower_char :: "char \<Rightarrow> char" where
  "py_lower_char c =
     (let n = (of_char c :: nat)
      in if (65 \<le> n \<and> n \<le> 90) \<or> (192 \<le> n \<and> n \<le> 222 \<and> n \<noteq> 215)
         then char_of (n + 32) else c)"

definition py_lower :: "string \<Rightarrow> string" where
  "py_lower s = map py_lower_char s"

text \<open>\<^verbatim>\<open>str(KeyError(k))\<close> is the key's \<^verbatim>\<open>repr\<close>.\<close>

definition key_error :: "string \<Rightarrow> exn" where
  "key_error k = Exn KeyError ([CHR 0x27] @ k @ [CHR 0x27])"

definition attribute_error :: exn where
  "attribute_error = Exn AttributeError ''object has no attribute''"

definition type_error :: exn where
  "type_error = Exn TypeError ''unsupported operand''"

text \<open>Slicing \<^verbatim>\<open>None\<close>.\<close>

definition none_not_subscriptable :: exn where
  "none_not_subscriptable =
     Exn TypeError ([CHR 0x27] @ ''NoneType'' @ [CHR 0x27] @ '' object is not subscriptable'')"

text \<open>
  The statements with which the stages read and write the artifact. A section that is
  missing raises \<^verbatim>\<open>KeyError\<close>; a section that is not a dictionary raises when it is
  used as one.
\<close>

text \<open>\<^verbatim>\<open>content_object[section]\<close>, used as a dictionary.\<close>

definition co_section :: "string \<Rightarrow> (pydict, pydict) eff" where
  "co_section section =
     (\<lambda>co. (case dict_get co section of
               None \<Rightarrow> Inl (key_error section)
             | Some (PDict d) \<Rightarrow> Inr d
             | Some v \<Rightarrow> Inl attribute_error, co))"

text \<open>\<^verbatim>\<open>content_object.get(section, {})\<close>, used as a dictionary.\<close>

definition co_section_or_empty :: "string \<Rightarrow> (pydict, pydict) eff" where
  "co_section_or_empty section =
     (\<lambda>co. (case dict_get co section of
               None \<Rightarrow> Inr []
             | Some (PDict d) \<Rightarrow> Inr d
             | Some v \<Rightarrow> Inl attribute_error, co))"

text \<open>\<^verbatim>\<open>content_object[section][k] = v\<close>\<close>

definition co_set_item :: "string \<Rightarrow> string \<Rightarrow> pyval \<Rightarrow> (pydict, unit) eff" where
  "co_set_item section k v =
     (\<lambda>co. case dict_get co section of
               None \<Rightarrow> (Inl (key_error section), co)
             | Some (PDict d) \<Rightarrow> (Inr (), dict_set co section (PDict (dict_set d k v)))
             | Some x \<Rightarrow> (Inl type_error, co))"

text \<open>\<^verbatim>\<open>content_object[section] = v\<close>\<close>

definition co_assign :: "string \<Rightarrow> pyval \<Rightarrow> (pydict, unit) eff" where
  "co_assign section v = (\<lambda>co. (Inr (), dict_set co section v))"

text \<open>\<^verbatim>\<open>content_object["diagnostics"].setdefault("warnings", []).append(w)\<close>\<close>

definition co_append_diagnostics_warning :: "string \<Rightarrow> (pydict, unit) eff" where
  "co_append_diagnostics_warning w =
     (\<lambda>co. case dict_get co ''diagnostics'' of
               None \<Rightarrow> (Inl (key_error ''diagnostics''), co)
             | Some (PDict d) \<Rightarrow>
                 (case dict_get d ''warnings'' of
                    None \<Rightarrow>
                      (Inr (), dict_set co ''diagnostics'' (PDict (dict_set d ''warnings'' (PList [PStr w]))))
                  | Some (PList ws) \<Rightarrow>
                      (Inr (), dict_set co ''diagnostics''
                                 (PDict (dict_set d ''warnings'' (PList (ws @ [PStr w])))))
                  | Some x \<Rightarrow>
                      (Inl attribute_error, co))
             | Some x \<Rightarrow> (Inl attribute_error, co))"

section \<open>The environment of a pipeline run\<close>

text \<open>
  Everything a run takes from outside is a field of \<open>penv\<close>, and the model is proved for
  every \<open>penv\<close>: the regular-expression search of \<^verbatim>\<open>validate_input.py\<close> (group 1 of
  the match), the timer readings, the metadata client, the transcription subsystem's
  environment and the world it finds, \<^verbatim>\<open>str.format\<close> on the two prompts,
  \<^verbatim>\<open>json\<close>, the language-model client, pydantic's validation of the two response
  models and its coercion of scalar values, the identifiers and time drawn when the run
  starts, and the iteration order of a set.
\<close>

record StructuredResponse =
  sr_sections :: "pyval list"
  sr_entities :: "string list"
  sr_references :: "string list"
  sr_detected_steps :: "string list"
  sr_code_blocks_present :: bool

record SemanticsResponse =
  sem_primary_topics :: "string list"
  sem_secondary_topics :: "string list"
  sem_content_type :: string
  sem_difficulty_level :: string
  sem_knowledge_type :: string

record penv =
  youtube_regex_search :: "string \<Rightarrow> string option"
  elapsed_ms :: "string \<Rightarrow> rat"
  str_of :: "pyval \<Rightarrow> string"
  extract_info :: "string \<Rightarrow> exn + pyval"
  fromtimestamp :: "pyval \<Rightarrow> exn + pyval"
  transcription_env :: env
  transcription_world :: world
  json_dumps :: "pyval \<Rightarrow> exn + string"
  format_structure_prompt :: "string \<Rightarrow> string \<Rightarrow> exn + string"
  format_semantics_prompt :: "pyval \<Rightarrow> string \<Rightarrow> string \<Rightarrow> exn + string"
  llm_client :: "string \<Rightarrow> exn + string"
  json_loads :: "string \<Rightarrow> exn + pyval"
  StructuredResponse_validate :: "pyval \<Rightarrow> exn + StructuredResponse"
  SemanticsResponse_validate :: "pyval \<Rightarrow> exn + SemanticsResponse"
  uuid4_run_id :: string
  uuid4_content_id :: string
  uuid4_workflow_run_id :: string
  utcnow :: string
  set_iteration :: "string list \<Rightarrow> string list"
  coerce_uuid :: "pyval \<Rightarrow> string option"
  coerce_datetime :: "pyval \<Rightarrow> string option"
  coerce_str :: "pyval \<Rightarrow> string option"
  coerce_int :: "pyval \<Rightarrow> int option"
  coerce_bool :: "pyval \<Rightarrow> bool option"
  validate_section :: "string \<Rightarrow> pyval \<Rightarrow> pyval option"
  validation_error_text :: "pydict \<Rightarrow> string"

text \<open>
  The configuration dictionary of a run has at most the two keys that the pipeline
  reads, with the types the command line gives them; \<open>None\<close> is a missing key (for
  \<open>download_audio_dir\<close> also the value \<^verbatim>\<open>None\<close>, which \<^verbatim>\<open>.get\<close> does not
  tell apart).
\<close>

record run_config =
  download_audio_dir :: "string option"
  transcribe_flag :: "bool option"

section \<open>stages: what a stage is\<close>

text \<open>
  A stage gets the artifact, the run identifier and the configuration. It returns a
  pair of the artifact and a \<^verbatim>\<open>StageResult\<close>, or it raises; in both cases the
  artifact is as the stage left it.
\<close>

datatype stage_outcome =
    StageReturned pydict StageResult
  | StageRaised pydict exn

type_synonym stage_fn = "pydict \<Rightarrow> string \<Rightarrow> run_config \<Rightarrow> stage_outcome"

definition run_stage_body :: "(pydict, StageResult) eff \<Rightarrow> pydict \<Rightarrow> stage_outcome" where
  "run_stage_body body content_object =
     (case body content_object of
        (Inr result, co) \<Rightarrow> StageReturned co result
      | (Inl exc, co) \<Rightarrow> StageRaised co exc)"

fun artifact_after :: "stage_outcome \<Rightarrow> pydict" where
  "artifact_after (StageReturned co result) = co"
| "artifact_after (StageRaised co exc) = co"

definition StageResult_init :: "string \<Rightarrow> bool \<Rightarrow> StageResult" where
  "StageResult_init name ok =
     \<lparr> stage_name = name, success = ok, warnings = [], errors = [], failures = [],
       suggested_fixes = [], execution_time_ms = None \<rparr>"

section \<open>stages/validate\_input.py\<close>

text \<open>
  The events a stage logs are left out; the arguments of its logging calls are
  evaluated again by the statements that follow them.
\<close>

definition validate_input_process :: "penv \<Rightarrow> stage_fn" where
  "validate_input_process pe content_object rid config =
     run_stage_body
       (then_do (co_section_or_empty ''source'')
          (\<lambda>source.
        then_do (lift (case dict_get source ''url'' of
                         None \<Rightarrow> Inr []
                       | Some (PStr u) \<Rightarrow> Inr u
                       | Some v \<Rightarrow> Inl attribute_error))
          (\<lambda>raw_url.
        let url = py_strip raw_url in
        if url = []
        then ret ((StageResult_init ''validate_input'' False)
                    \<lparr> errors := [''No URL provided''],
                      failures :=
                        [\<lparr> sf_stage = ''validate_input'', sf_type = INPUT_ERROR,
                           sf_cause = ''missing_url'',
                           sf_impact = ''Cannot proceed without input URL'',
                           sf_suggested_fixes = [''Provide a valid YouTube URL via CLI''] \<rparr>],
                      execution_time_ms := Some (elapsed_ms pe ''validate_input'') \<rparr>)
        else
          (case youtube_regex_search pe url of
             None \<Rightarrow>
               ret ((StageResult_init ''validate_input'' False)
                      \<lparr> warnings := [''URL did not match YouTube pattern: '' @ url],
                        failures :=
                          [\<lparr> sf_stage = ''validate_input'', sf_type = INPUT_ERROR,
                             sf_cause = ''invalid_youtube_url'',
                             sf_impact = ''Cannot extract video_id; pipeline will produce diagnostics-only artifact'',
                             sf_suggested_fixes =
                               [''Ensure URL is from youtube.com or youtu.be'',
                                ''Check for typos or extra characters'',
                                ''Use standard watch?v= or youtu.be format''] \<rparr>],
                        execution_time_ms := Some (elapsed_ms pe ''validate_input'') \<rparr>)
           | Some group1 \<Rightarrow>
               then_do (lift (case py_split group1 ''&'' of
                                Inl e \<Rightarrow> Inl e
                              | Inr [] \<Rightarrow> Inl (Exn IndexError ''list index out of range'')
                              | Inr (p # ps) \<Rightarrow> Inr p))
                 (\<lambda>video_id.
               then_do (co_set_item ''source'' ''video_id'' (PStr video_id))
                 (\<lambda>u.
               then_do (co_set_item ''source'' ''url'' (PStr url))
                 (\<lambda>u.
               ret ((StageResult_init ''validate_input'' True)
                      \<lparr> execution_time_ms := Some (elapsed_ms pe ''validate_input'') \<rparr>))))))))
       content_object"

section \<open>stages/fetch\_metadata.py\<close>

text \<open>An f-string field: a string as it is, another value as \<^verbatim>\<open>str\<close> renders it.\<close>

definition py_format_value :: "penv \<Rightarrow> pyval \<Rightarrow> string" where
  "py_format_value pe v = (case v of PStr s \<Rightarrow> s | _ \<Rightarrow> str_of pe v)"

definition fetch_metadata_download_error :: "penv \<Rightarrow> exn \<Rightarrow> StageResult" where
  "fetch_metadata_download_error pe exc =
     (let message = py_lower (str_exc exc);
          cause = (if py_in ''unavailable'' message then ''video_unavailable'' else ''download_error'');
          suggested = [''Check if video is public and not deleted'',
                       ''Try again later (transient YouTube issue)''];
          restricted = (py_in ''age-restricted'' message \<or> py_in ''sign in'' message)
      in (StageResult_init ''fetch_metadata'' False)
           \<lparr> warnings := [''Metadata fetch failed''],
             failures :=
               [\<lparr> sf_stage = ''fetch_metadata'', sf_type = SOURCE_ERROR,
                  sf_cause = (if restricted then ''age_restricted'' else cause),
                  sf_impact = ''Metadata unavailable; downstream stages will have limited data'',
                  sf_suggested_fixes =
                    (if restricted
                     then suggested @ [''Provide cookies.txt with logged-in session'']
                     else suggested) \<rparr>],
             execution_time_ms := Some (elapsed_ms pe ''fetch_metadata'') \<rparr>)"

definition fetch_metadata_unexpected_error :: "penv \<Rightarrow> exn \<Rightarrow> StageResult" where
  "fetch_metadata_unexpected_error pe exc =
     (StageResult_init ''fetch_metadata'' False)
       \<lparr> errors := [''Unexpected error: '' @ str_exc exc],
         failures :=
           [\<lparr> sf_stage = ''fetch_metadata'', sf_type = SOURCE_ERROR,
              sf_cause = ''unexpected_error'',
              sf_impact = ''Metadata unavailable'',
              sf_suggested_fixes = [''Check internet connection'', ''Update yt-dlp'', ''Review logs''] \<rparr>],
         execution_time_ms := Some (elapsed_ms pe ''fetch_metadata'') \<rparr>"

definition fetch_metadata_process :: "penv \<Rightarrow> stage_fn" where
  "fetch_metadata_process pe content_object rid config =
     run_stage_body
       (then_do (co_section ''source'')
          (\<lambda>source.
        let video_id = dict_get_default source ''video_id'' PNone in
        if \<not> truthy video_id
        then ret ((StageResult_init ''fetch_metadata'' False)
                    \<lparr> failures :=
                        [\<lparr> sf_stage = ''fetch_metadata'', sf_type = INPUT_ERROR,
                           sf_cause = ''missing_video_id'',
                           sf_impact = ''Cannot fetch metadata without video_id'',
                           sf_suggested_fixes = [''Ensure validate_input stage succeeded''] \<rparr>] \<rparr>)
        else
          try_except
            (then_do (lift (extract_info pe
                              (''https://www.youtube.com/watch?v='' @ py_format_value pe video_id)))
               (\<lambda>info_value.
             if \<not> truthy info_value then raise (Exn DownloadError ''No info returned'')
             else
             then_do (lift (case info_value of PDict d \<Rightarrow> Inr d | _ \<Rightarrow> Inl attribute_error))
               (\<lambda>info.
             then_do (co_set_item ''source'' ''title'' (dict_get_default info ''title'' PNone))
               (\<lambda>u.
             then_do (co_set_item ''source'' ''channel_name''
                        (py_or (dict_get_default info ''channel'' PNone)
                               (dict_get_default info ''uploader'' PNone)))
               (\<lambda>u.
             then_do (co_set_item ''source'' ''duration_seconds'' (dict_get_default info ''duration'' PNone))
               (\<lambda>u.
             then_do (if truthy (dict_get_default info ''timestamp'' PNone)
                      then lift (fromtimestamp pe (dict_get_default info ''timestamp'' PNone))
                      else ret PNone)
               (\<lambda>published_at.
             then_do (co_set_item ''source'' ''published_at'' published_at)
               (\<lambda>u.
             then_do (co_set_item ''source'' ''language'' (dict_get_default info ''language'' PNone))
               (\<lambda>u.
             then_do (co_set_item ''source'' ''captions_available''
                        (PBool (truthy (dict_get_default info ''subtitles'' PNone)
                                \<or> truthy (dict_get_default info ''automatic_captions'' PNone))))
               (\<lambda>u.
             then_do (co_set_item ''raw'' ''description_text'' (dict_get_default info ''description'' PNone))
               (\<lambda>u.
             then_do (co_set_item ''raw'' ''tags'' (dict_get_default info ''tags'' PNone))
               (\<lambda>u.
             ret ((StageResult_init ''fetch_metadata'' True)
                    \<lparr> execution_time_ms := Some (elapsed_ms pe ''fetch_metadata'') \<rparr>)))))))))))))
            (\<lambda>exc. if exc_class exc = DownloadError
                   then ret (fetch_metadata_download_error pe exc)
                   else ret (fetch_metadata_unexpected_error pe exc))))
       content_object"

section \<open>stages/fetch\_transcript.py\<close>

text \<open>
  The stage calls the transcription coordinator in the world it finds and keeps its
  result. The artifact's \<open>source.url\<close> is a string in every run; for another value the
  model raises inside the stage's \<^verbatim>\<open>try\<close> block.
\<close>

definition fetch_transcript_result :: "penv \<Rightarrow> TranscriptionResult \<Rightarrow> StageResult" where
  "fetch_transcript_result pe result =
     \<lparr> stage_name = ''fetch_transcript'',
       success = t_success result,
       warnings = t_warnings result,
       errors = t_errors result,
       failures =
         map (\<lambda>err. \<lparr> sf_stage = ''fetch_transcript'', sf_type = EXTRACTION_ERROR,
                       sf_cause = err, sf_impact = ''Transcript limited'',
                       sf_suggested_fixes = t_suggested_fixes result \<rparr>)
             (t_errors result),
       suggested_fixes = t_suggested_fixes result,
       execution_time_ms = Some (elapsed_ms pe ''fetch_transcript'') \<rparr>"

definition fetch_transcript_process :: "penv \<Rightarrow> stage_fn" where
  "fetch_transcript_process pe content_object rid config =
     run_stage_body
       (then_do (co_section ''source'')
          (\<lambda>source.
        then_do (lift (case dict_get source ''url'' of
                         None \<Rightarrow> Inl (key_error ''url'')
                       | Some v \<Rightarrow> Inr v))
          (\<lambda>url.
        let trans_config =
              \<lparr> cfg_download_audio_dir = download_audio_dir config,
                cfg_transcribe = (case transcribe_flag config of None \<Rightarrow> True | Some b \<Rightarrow> b) \<rparr>
        in
        try_except
          (then_do (lift (case url of
                            PStr u \<Rightarrow> fst (transcribe (transcription_env pe) u trans_config
                                              (transcription_world pe))
                          | _ \<Rightarrow> Inl type_error))
             (\<lambda>result.
           then_do
             (if t_success result
              then then_do (co_set_item ''raw'' ''transcript_text'' (PStr (transcript_text result)))
                     (\<lambda>u.
                   then_do (co_set_item ''raw'' ''audio_path''
                              (case audio_path result of None \<Rightarrow> PNone | Some p \<Rightarrow> PStr p))
                     (\<lambda>u.
                   then_do (co_set_item ''raw'' ''transcript_language'' (PStr ''en''))
                     (\<lambda>u.
                   co_set_item ''raw'' ''transcript_confidence''
                     (PFloat (if t_method result = Some ''captions'' then 1 else 7 / 10)))))
              else ret ())
             (\<lambda>u. ret (fetch_transcript_result pe result))))
          (\<lambda>exc.
             ret ((StageResult_init ''fetch_transcript'' False)
                    \<lparr> errors := [str_exc exc],
                      failures :=
                        [\<lparr> sf_stage = ''fetch_transcript'', sf_type = EXTRACTION_ERROR,
                           sf_cause = ''unexpected'', sf_impact = ''No transcript'',
                           sf_suggested_fixes = [''Review logs''] \<rparr>] \<rparr>)))))
       content_object"

section \<open>stages/analyze\_structure.py\<close>

text \<open>\<^verbatim>\<open>_call_llm\<close>: whatever the client raises becomes a \<^verbatim>\<open>RuntimeError\<close>.\<close>

definition call_llm :: "penv \<Rightarrow> string \<Rightarrow> exn + string" where
  "call_llm pe prompt =
     (case llm_client pe prompt of
        Inr content \<Rightarrow> Inr (py_strip content)
      | Inl exc \<Rightarrow> Inl (Exn RuntimeError (''LLM call failed: '' @ str_exc exc)))"

definition empty_structure :: "pyval \<Rightarrow> pyval" where
  "empty_structure chapters =
     PDict [(''sections'', py_or chapters (PList [])),
            (''entities'', PList []),
            (''references'', PList []),
            (''detected_steps'', PList []),
            (''code_blocks_present'', PBool False)]"

definition analyze_structure_failure :: "penv \<Rightarrow> exn \<Rightarrow> StageResult" where
  "analyze_structure_failure pe exc =
     (if exc_class exc = JSONDecodeError
      then (StageResult_init ''analyze_structure'' False)
             \<lparr> errors := [''AI returned invalid JSON''],
               failures :=
                 [\<lparr> sf_stage = ''analyze_structure'', sf_type = STRUCTURE_ERROR,
                    sf_cause = ''invalid_json_response'',
                    sf_impact = ''Structural fields empty; raw response preserved in logs'',
                    sf_suggested_fixes = [''Review prompt'', ''Update model'', ''Add response repair logic''] \<rparr>],
               execution_time_ms := Some (elapsed_ms pe ''analyze_structure'') \<rparr>
      else if exc_class exc = ValidationError
      then (StageResult_init ''analyze_structure'' False)
             \<lparr> errors := [''Validation error: '' @ str_exc exc],
               failures :=
                 [\<lparr> sf_stage = ''analyze_structure'', sf_type = STRUCTURE_ERROR,
                    sf_cause = ''schema_validation_failed'',
                    sf_impact = ''Structural fields empty'',
                    sf_suggested_fixes = [''Adjust prompt for stricter adherence'', ''Add fallback parsing''] \<rparr>],
               execution_time_ms := Some (elapsed_ms pe ''analyze_structure'') \<rparr>
      else (StageResult_init ''analyze_structure'' False)
             \<lparr> errors := [''LLM call failed: '' @ str_exc exc],
               failures :=
                 [\<lparr> sf_stage = ''analyze_structure'', sf_type = STRUCTURE_ERROR,
                    sf_cause = ''llm_invocation_failed'',
                    sf_impact = ''Structural fields empty'',
                    sf_suggested_fixes = [''Check API key/model availability'', ''Retry later''] \<rparr>],
               execution_time_ms := Some (elapsed_ms pe ''analyze_structure'') \<rparr>)"

text \<open>
  \<open>raw.transcript_text\<close> is a string or \<^verbatim>\<open>None\<close> in every run; for another truthy
  value the model raises where the source takes its length.
\<close>

definition analyze_structure_process :: "penv \<Rightarrow> stage_fn" where
  "analyze_structure_process pe content_object rid config =
     run_stage_body
       (then_do (co_section ''raw'')
          (\<lambda>raw.
        let transcript_value = py_or (dict_get_default raw ''transcript_text'' (PStr [])) (PStr []);
            chapters = dict_get_default raw ''chapters'' (PList [])
        in
        if \<not> truthy transcript_value
        then then_do (co_assign ''structure'' (empty_structure chapters))
               (\<lambda>u. ret ((StageResult_init ''analyze_structure'' True)
                           \<lparr> warnings := [''No transcript available for structural analysis''],
                             execution_time_ms := Some (elapsed_ms pe ''analyze_structure'') \<rparr>))
        else
        then_do (lift (case transcript_value of PStr t \<Rightarrow> Inr t | _ \<Rightarrow> Inl type_error))
          (\<lambda>whole_transcript.
        then_do (if length whole_transcript > 40000
                 then then_do (co_append_diagnostics_warning ''Transcript truncated for structural analysis'')
                        (\<lambda>u. ret (take 40000 whole_transcript))
                 else ret whole_transcript)
          (\<lambda>transcript.
        then_do (if truthy chapters then lift (json_dumps pe chapters) else ret ''none'')
          (\<lambda>chapters_text.
        then_do (lift (format_structure_prompt pe transcript chapters_text))
          (\<lambda>prompt.
        try_except
          (then_do (lift (call_llm pe prompt))
             (\<lambda>raw_response.
           then_do (lift (json_loads pe raw_response))
             (\<lambda>parsed.
           then_do (lift (StructuredResponse_validate pe parsed))
             (\<lambda>validated.
           then_do (co_assign ''structure''
                      (PDict [(''sections'', py_or (PList (sr_sections validated)) (py_or chapters (PList []))),
                              (''entities'', PList (map PStr (sr_entities validated))),
                              (''references'', PList (map PStr (sr_references validated))),
                              (''detected_steps'', PList (map PStr (sr_detected_steps validated))),
                              (''code_blocks_present'', PBool (sr_code_blocks_present validated))]))
             (\<lambda>u.
           ret ((StageResult_init ''analyze_structure'' True)
                  \<lparr> execution_time_ms := Some (elapsed_ms pe ''analyze_structure'') \<rparr>))))))
          (\<lambda>exc.
             then_do (co_assign ''structure'' (empty_structure chapters))
               (\<lambda>u. ret (analyze_structure_failure pe exc)))))))))
       content_object"

section \<open>stages/analyze\_semantics.py\<close>

definition empty_semantics :: pyval where
  "empty_semantics =
     PDict [(''primary_topics'', PList []),
            (''secondary_topics'', PList []),
            (''content_type'', PNone),
            (''difficulty_level'', PNone),
            (''knowledge_type'', PNone)]"

definition analyze_semantics_failure :: "penv \<Rightarrow> exn \<Rightarrow> StageResult" where
  "analyze_semantics_failure pe exc =
     (if exc_class exc = JSONDecodeError
      then (StageResult_init ''analyze_semantics'' False)
             \<lparr> errors := [''AI returned invalid JSON''],
               failures :=
                 [\<lparr> sf_stage = ''analyze_semantics'', sf_type = INTERPRETATION_ERROR,
                    sf_cause = ''invalid_json_response'',
                    sf_impact = ''Semantics fields empty'',
                    sf_suggested_fixes = [''Review prompt'', ''Update model for JSON adherence''] \<rparr>],
               execution_time_ms := Some (elapsed_ms pe ''analyze_semantics'') \<rparr>
      else if exc_class exc = ValidationError
      then (StageResult_init ''analyze_semantics'' False)
             \<lparr> errors := [''Validation failed: '' @ str_exc exc],
               failures :=
                 [\<lparr> sf_stage = ''analyze_semantics'', sf_type = INTERPRETATION_ERROR,
                    sf_cause = ''schema_validation_failed'',
                    sf_impact = ''Semantics fields empty'',
                    sf_suggested_fixes = [''Strengthen prompt constraints'', ''Add response repair''] \<rparr>],
               execution_time_ms := Some (elapsed_ms pe ''analyze_semantics'') \<rparr>
      else (StageResult_init ''analyze_semantics'' False)
             \<lparr> errors := [''LLM error: '' @ str_exc exc],
               failures :=
                 [\<lparr> sf_stage = ''analyze_semantics'', sf_type = INTERPRETATION_ERROR,
                    sf_cause = ''llm_invocation_failed'',
                    sf_impact = ''Semantics fields empty'',
                    sf_suggested_fixes = [''Check model availability'', ''Retry later''] \<rparr>],
               execution_time_ms := Some (elapsed_ms pe ''analyze_semantics'') \<rparr>)"

text \<open>
  \<open>raw.description_text\<close> is a string or \<^verbatim>\<open>None\<close> in every run; \<^verbatim>\<open>None\<close> raises
  where the source slices it, and so does the model for every value that is not a
  string.
\<close>

definition analyze_semantics_process :: "penv \<Rightarrow> stage_fn" where
  "analyze_semantics_process pe content_object rid config =
     run_stage_body
       (then_do (co_section ''source'')
          (\<lambda>source.
        then_do (co_section ''raw'')
          (\<lambda>raw.
        let title = dict_get_default source ''title'' (PStr []);
            description = dict_get_default raw ''description_text'' (PStr []);
            transcript_value = py_or (dict_get_default raw ''transcript_text'' (PStr [])) (PStr [])
        in
        if \<not> truthy transcript_value \<and> \<not> truthy title
        then then_do (co_assign ''semantics'' empty_semantics)
               (\<lambda>u. ret ((StageResult_init ''analyze_semantics'' True)
                           \<lparr> warnings := [''Insufficient content for semantic analysis''],
                             execution_time_ms := Some (elapsed_ms pe ''analyze_semantics'') \<rparr>))
        else
        then_do (lift (case transcript_value of PStr t \<Rightarrow> Inr t | _ \<Rightarrow> Inl type_error))
          (\<lambda>transcript.
        let transcript_sample = take 20000 transcript in
        then_do (if length transcript > 20000
                 then co_append_diagnostics_warning ''Transcript truncated for semantic analysis''
                 else ret ())
          (\<lambda>u.
        then_do (lift (case description of
                         PStr d \<Rightarrow> Inr (take 2000 d)
                       | PNone \<Rightarrow> Inl none_not_subscriptable
                       | _ \<Rightarrow> Inl type_error))
          (\<lambda>description_head.
        then_do (lift (format_semantics_prompt pe
                         (py_or title (PStr ''No title''))
                         (if description_head = [] then ''No description'' else description_head)
                         (if transcript_sample = [] then ''No transcript'' else transcript_sample)))
          (\<lambda>prompt.
        try_except
          (then_do (lift (call_llm pe prompt))
             (\<lambda>raw_response.
           then_do (lift (json_loads pe raw_response))
             (\<lambda>parsed.
           then_do (lift (SemanticsResponse_validate pe parsed))
             (\<lambda>validated.
           then_do (co_assign ''semantics''
                      (PDict [(''primary_topics'', PList (map PStr (sem_primary_topics validated))),
                              (''secondary_topics'', PList (map PStr (sem_secondary_topics validated))),
                              (''content_type'', PStr (sem_content_type validated)),
                              (''difficulty_level'', PStr (sem_difficulty_level validated)),
                              (''knowledge_type'', PStr (sem_knowledge_type validated))]))
             (\<lambda>u.
           ret ((StageResult_init ''analyze_semantics'' True)
                  \<lparr> execution_time_ms := Some (elapsed_ms pe ''analyze_semantics'') \<rparr>))))))
          (\<lambda>exc.
             then_do (co_assign ''semantics'' empty_semantics)
               (\<lambda>u. ret (analyze_semantics_failure pe exc))))))))))
       content_object"

section \<open>schema.py: validation of the whole artifact\<close>

text \<open>
  \<^verbatim>\<open>ContentObject.model_validate(content_object)\<close> followed by
  \<^verbatim>\<open>model_dump(by_alias=False, exclude_none=True)\<close>, read off the declarations of
  \<^verbatim>\<open>schema.py\<close>: \<open>identity\<close> and \<open>source\<close> are required, the other four sections
  have default factories; every field of \<^verbatim>\<open>Identity\<close> has a default; \<open>url\<close> is the one
  required field of \<^verbatim>\<open>Source\<close>, \<open>source_type\<close> has a default and the others are
  optional; keys that are not fields are ignored. How pydantic coerces a value to a
  field's type, and how it validates the four other sections, is taken from \<open>penv\<close>.
  The dump leaves out the fields whose value is \<^verbatim>\<open>None\<close>.
\<close>

definition field_with_default ::
  "(pyval \<Rightarrow> 'a option) \<Rightarrow> ('a \<Rightarrow> pyval) \<Rightarrow> 'a \<Rightarrow> pydict \<Rightarrow> string \<Rightarrow> pyval option" where
  "field_with_default coerce mk dflt d k =
     (case dict_get d k of None \<Rightarrow> Some (mk dflt) | Some v \<Rightarrow> map_option mk (coerce v))"

definition field_required ::
  "(pyval \<Rightarrow> 'a option) \<Rightarrow> ('a \<Rightarrow> pyval) \<Rightarrow> pydict \<Rightarrow> string \<Rightarrow> pyval option" where
  "field_required coerce mk d k =
     (case dict_get d k of None \<Rightarrow> None | Some v \<Rightarrow> map_option mk (coerce v))"

definition field_optional ::
  "(pyval \<Rightarrow> 'a option) \<Rightarrow> ('a \<Rightarrow> pyval) \<Rightarrow> pydict \<Rightarrow> string \<Rightarrow> pyval option" where
  "field_optional coerce mk d k =
     (case dict_get d k of
        None \<Rightarrow> Some PNone
      | Some PNone \<Rightarrow> Some PNone
      | Some v \<Rightarrow> map_option mk (coerce v))"

text \<open>The validated fields, if every one of them validated.\<close>

fun collect_fields :: "(string \<times> pyval option) list \<Rightarrow> pydict option" where
  "collect_fields [] = Some []"
| "collect_fields ((k, None) # fs) = None"
| "collect_fields ((k, Some v) # fs) =
     (case collect_fields fs of None \<Rightarrow> None | Some d \<Rightarrow> Some ((k, v) # d))"

definition exclude_none :: "pydict \<Rightarrow> pydict" where
  "exclude_none d = filter (\<lambda>(k, v). v \<noteq> PNone) d"

definition Identity_validate_dump :: "penv \<Rightarrow> pyval \<Rightarrow> pydict option" where
  "Identity_validate_dump pe v =
     (case v of
        PDict d \<Rightarrow>
          map_option exclude_none (collect_fields
            [(''content_id'',
                field_with_default (coerce_uuid pe) (PObj ''UUID'') (uuid4_content_id pe) d ''content_id''),
             (''workflow_run_id'',
                field_with_default (coerce_uuid pe) (PObj ''UUID'') (uuid4_workflow_run_id pe) d ''workflow_run_id''),
             (''created_at'',
                field_with_default (coerce_datetime pe) (PObj ''datetime'') (utcnow pe) d ''created_at''),
             (''workflow_version'',
                field_with_default (coerce_str pe) PStr ''0.1.0'' d ''workflow_version'')])
      | _ \<Rightarrow> None)"

definition Source_validate_dump :: "penv \<Rightarrow> pyval \<Rightarrow> pydict option" where
  "Source_validate_dump pe v =
     (case v of
        PDict d \<Rightarrow>
          map_option exclude_none (collect_fields
            [(''source_type'', field_with_default (coerce_str pe) PStr ''youtube'' d ''source_type''),
             (''url'', field_required (coerce_str pe) PStr d ''url''),
             (''video_id'', field_optional (coerce_str pe) PStr d ''video_id''),
             (''title'', field_optional (coerce_str pe) PStr d ''title''),
             (''channel_name'', field_optional (coerce_str pe) PStr d ''channel_name''),
             (''duration_seconds'', field_optional (coerce_int pe) PInt d ''duration_seconds''),
             (''published_at'', field_optional (coerce_datetime pe) (PObj ''datetime'') d ''published_at''),
             (''language'', field_optional (coerce_str pe) PStr d ''language''),
             (''captions_available'', field_optional (coerce_bool pe) PBool d ''captions_available'')])
      | _ \<Rightarrow> None)"

text \<open>
  One of the four sections with a default factory: a missing key gives the dump of the
  default (empty for \<open>raw\<close>, \<open>structure\<close> and \<open>semantics\<close>, whose fields all default to
  \<^verbatim>\<open>None\<close>; four empty containers for \<open>diagnostics\<close>).
\<close>

definition default_section_dump :: "string \<Rightarrow> pyval" where
  "default_section_dump name =
     (if name = ''diagnostics''
      then PDict [(''stage_status'', PDict []), (''warnings'', PList []),
                  (''errors'', PList []), (''suggested_fixes'', PList [])]
      else PDict [])"

definition section_validate_dump :: "penv \<Rightarrow> pydict \<Rightarrow> string \<Rightarrow> pyval option" where
  "section_validate_dump pe co name =
     (case dict_get co name of
        None \<Rightarrow> Some (default_section_dump name)
      | Some v \<Rightarrow> validate_section pe name v)"

definition ContentObject_validate_dump :: "penv \<Rightarrow> pydict \<Rightarrow> exn + pydict" where
  "ContentObject_validate_dump pe co =
     (case collect_fields
             [(''identity'',
                 (case dict_get co ''identity'' of
                    None \<Rightarrow> None
                  | Some v \<Rightarrow> map_option PDict (Identity_validate_dump pe v))),
              (''source'',
                 (case dict_get co ''source'' of
                    None \<Rightarrow> None
                  | Some v \<Rightarrow> map_option PDict (Source_validate_dump pe v))),
              (''raw'', section_validate_dump pe co ''raw''),
              (''structure'', section_validate_dump pe co ''structure''),
              (''semantics'', section_validate_dump pe co ''semantics''),
              (''diagnostics'', section_validate_dump pe co ''diagnostics'')] of
        None \<Rightarrow> Inl (Exn ValidationError (validation_error_text pe co))
      | Some dumped \<Rightarrow> Inr dumped)"

section \<open>logging\_core/logger.py, as the orchestrator uses it\<close>

text \<open>
  The orchestrator's own events, in order. Each has a level, the stage it is about, an
  event type and metadata; the fixed message text is left out. Emitting an event does
  not raise (the logging handlers swallow errors).
\<close>

datatype log_level = INFO | WARNING | ERROR

record log_record =
  level :: log_level
  log_stage_name :: "string option"
  event_type :: string
  metadata :: "pydict option"

section \<open>runner.py\<close>

record run_state =
  content_object :: pydict
  collector :: DiagnosticsCollector
  logged :: "log_record list"

text \<open>The result that stands for an exception of stage \<open>name\<close>.\<close>

definition unhandled_exception_result :: "string \<Rightarrow> exn \<Rightarrow> StageResult" where
  "unhandled_exception_result name exc =
     \<lparr> stage_name = name,
       success = False,
       warnings = [],
       errors = [''Unhandled exception: '' @ str_exc exc],
       failures =
         [\<lparr> sf_stage = name, sf_type = SOURCE_ERROR, sf_cause = ''unexpected_exception'',
            sf_impact = ''stage aborted'',
            sf_suggested_fixes = [''Review logs'', ''Report bug with traceback''] \<rparr>],
       suggested_fixes = [],
       execution_time_ms = None \<rparr>"

text \<open>
  The \<^verbatim>\<open>except\<close> clause of the loop body: it submits the synthetic result; if the
  collector rejects that too, the exception leaves \<^verbatim>\<open>run_ingestion\<close>.
\<close>

definition handle_stage_exception :: "string \<Rightarrow> exn \<Rightarrow> run_state \<Rightarrow> exn + run_state" where
  "handle_stage_exception name exc s =
     (case add_stage_result (collector s) (unhandled_exception_result name exc) of
        (Inl e, c) \<Rightarrow> Inl e
      | (Inr u, c) \<Rightarrow>
          Inr (s\<lparr> collector := c,
                  logged := logged s @ [\<lparr> level = ERROR, log_stage_name = Some name,
                                     event_type = ''failure'',
                                     metadata = Some [(''exception'', PStr (str_exc exc))] \<rparr>] \<rparr>))"

text \<open>One turn of the loop, for the stage \<open>stage_func\<close> of the module \<open>name\<close>.\<close>

definition run_one_stage ::
  "string \<Rightarrow> stage_fn \<Rightarrow> string \<Rightarrow> run_config \<Rightarrow> run_state \<Rightarrow> exn + run_state" where
  "run_one_stage name stage_func rid config s0 =
     (let s = s0\<lparr> logged := logged s0 @ [\<lparr> level = INFO, log_stage_name = Some name,
                                       event_type = ''start'', metadata = None \<rparr>] \<rparr>
      in case stage_func (content_object s) rid config of
           StageReturned co stage_result \<Rightarrow>
             (case add_stage_result (collector s) stage_result of
                (Inr u, c) \<Rightarrow>
                  Inr (s\<lparr> content_object := co, collector := c,
                          logged := logged s @
                            [\<lparr> level = (if success stage_result then INFO else WARNING),
                               log_stage_name = Some name,
                               event_type = (if success stage_result then ''success'' else ''failure''),
                               metadata = Some [(''success'', PBool (success stage_result))] \<rparr>] \<rparr>)
              | (Inl exc, c) \<Rightarrow>
                  handle_stage_exception name exc (s\<lparr> content_object := co, collector := c \<rparr>))
         | StageRaised co exc \<Rightarrow>
             handle_stage_exception name exc (s\<lparr> content_object := co \<rparr>))"

fun run_stages ::
  "(string \<times> stage_fn) list \<Rightarrow> string \<Rightarrow> run_config \<Rightarrow> run_state \<Rightarrow> exn + run_state" where
  "run_stages [] rid config s = Inr s"
| "run_stages ((name, stage_func) # rest) rid config s =
     (case run_one_stage name stage_func rid config s of
        Inl e \<Rightarrow> Inl e
      | Inr s' \<Rightarrow> run_stages rest rid config s')"

text \<open>
  \<^verbatim>\<open>Identity().model_dump()\<close> and \<^verbatim>\<open>Source(url=url).model_dump()\<close>: the first
  artifact of a run. This dump keeps the fields that are \<^verbatim>\<open>None\<close>.
\<close>

definition initial_content_object :: "penv \<Rightarrow> string \<Rightarrow> pydict" where
  "initial_content_object pe url =
     [(''identity'', PDict [(''content_id'', PObj ''UUID'' (uuid4_content_id pe)),
                            (''workflow_run_id'', PObj ''UUID'' (uuid4_workflow_run_id pe)),
                            (''created_at'', PObj ''datetime'' (utcnow pe)),
                            (''workflow_version'', PStr ''0.1.0'')]),
      (''source'', PDict [(''source_type'', PStr ''youtube''),
                          (''url'', PStr url),
                          (''video_id'', PNone),
                          (''title'', PNone),
                          (''channel_name'', PNone),
                          (''duration_seconds'', PNone),
                          (''published_at'', PNone),
                          (''language'', PNone),
                          (''captions_available'', PNone)]),
      (''raw'', PDict []),
      (''structure'', PDict []),
      (''semantics'', PDict []),
      (''diagnostics'', PDict [])]"

text \<open>\<^verbatim>\<open>config or {}\<close>\<close>

definition config_or_empty :: "run_config option \<Rightarrow> run_config" where
  "config_or_empty config =
     (case config of
        None \<Rightarrow> \<lparr> download_audio_dir = None, transcribe_flag = None \<rparr>
      | Some c \<Rightarrow> c)"

text \<open>The state in which the loop starts.\<close>

definition initial_run_state :: "penv \<Rightarrow> string \<Rightarrow> run_state" where
  "initial_run_state pe url =
     \<lparr> content_object = initial_content_object pe url,
       collector = DiagnosticsCollector_init (uuid4_run_id pe),
       logged = [\<lparr> level = INFO, log_stage_name = None, event_type = ''pipeline_start'',
                metadata = Some [(''url'', PStr url), (''run_id'', PStr (uuid4_run_id pe))] \<rparr>] \<rparr>"

text \<open>
  \<^verbatim>\<open>run_ingestion\<close> over a list of stages, each with the last component of its
  module's name. It returns the artifact together with the events it logged, or the
  exception that leaves it.
\<close>

definition run_ingestion_with ::
  "(string \<times> stage_fn) list \<Rightarrow> penv \<Rightarrow> string \<Rightarrow> run_config option
     \<Rightarrow> exn + (pydict \<times> log_record list)" where
  "run_ingestion_with stages pe url config =
     (case run_stages stages (uuid4_run_id pe) (config_or_empty config) (initial_run_state pe url) of
        Inl e \<Rightarrow> Inl e
      | Inr s \<Rightarrow>
          (let co = dict_set (content_object s) ''diagnostics''
                      (PDict (fst (build_diagnostics (set_iteration pe) (collector s))))
           in case ContentObject_validate_dump pe co of
                Inr validated \<Rightarrow>
                  Inr (validated,
                       logged s @ [\<lparr> level = INFO, log_stage_name = None,
                                  event_type = ''pipeline_success'', metadata = None \<rparr>])
              | Inl exc \<Rightarrow>
                  Inr (co,
                       logged s @ [\<lparr> level = ERROR, log_stage_name = None,
                                  event_type = ''validation_failure'',
                                  metadata = Some [(''validation_error'', PStr (str_exc exc))] \<rparr>])))"

text \<open>The module-level list \<^verbatim>\<open>STAGES\<close>, and \<^verbatim>\<open>run_ingestion\<close> itself.\<close>

definition STAGES :: "penv \<Rightarrow> (string \<times> stage_fn) list" where
  "STAGES pe =
     [(''validate_input'', validate_input_process pe),
      (''fetch_metadata'', fetch_metadata_process pe),
      (''fetch_transcript'', fetch_transcript_process pe),
      (''analyze_structure'', analyze_structure_process pe),
      (''analyze_semantics'', analyze_semantics_process pe)]"

definition run_ingestion ::
  "penv \<Rightarrow> string \<Rightarrow> run_config option \<Rightarrow> exn + (pydict \<times> log_record list)" where
  "run_ingestion pe url config = run_ingestion_with (STAGES pe) pe url config"

text \<open>What the claims say of an artifact and of a run.\<close>

definition has_identity :: "pydict \<Rightarrow> bool" where
  "has_identity co =
     (case dict_get co ''identity'' of
        Some (PDict d) \<Rightarrow>
          dict_has d ''content_id'' \<and> dict_has d ''workflow_run_id''
          \<and> dict_has d ''created_at'' \<and> dict_has d ''workflow_version''
      | _ \<Rightarrow> False)"

definition has_source_url :: "pydict \<Rightarrow> bool" where
  "has_source_url co =
     (case dict_get co ''source'' of
        Some (PDict d) \<Rightarrow> (case dict_get d ''url'' of Some (PStr u) \<Rightarrow> True | _ \<Rightarrow> False)
      | _ \<Rightarrow> False)"

text \<open>
  The outcomes of the stages of a run, in order: each stage is called with the artifact
  that the stage before it left.
\<close>

fun stage_outcomes ::
  "(string \<times> stage_fn) list \<Rightarrow> string \<Rightarrow> run_config \<Rightarrow> pydict \<Rightarrow> (string \<times> stage_outcome) list" where
  "stage_outcomes [] rid config co = []"
| "stage_outcomes ((name, stage_func) # rest) rid config co =
     (name, stage_func co rid config)
       # stage_outcomes rest rid config (artifact_after (stage_func co rid config))"

text \<open>The stages that the log says were started, in order.\<close>

definition started_stages :: "log_record list \<Rightarrow> string list" where
  "started_stages events =
     concat (map (\<lambda>r. if event_type r = ''start''
                      then (case log_stage_name r of None \<Rightarrow> [] | Some n \<Rightarrow> [n]) else [])
                 events)"

text \<open>
  Every stage of \<open>stages\<close> puts the name of its own module into the results it returns,
  as the five stages of the source do (\<^verbatim>\<open>stage_name = "validate_input"\<close>, ...).
\<close>

definition own_names :: "(string \<times> stage_fn) list \<Rightarrow> bool" where
  "own_names stages =
     (\<forall>(name, stage_func) \<in> set stages.
        \<forall>co rid config co' result.
          stage_func co rid config = StageReturned co' result \<longrightarrow> stage_name result = name)"

text \<open>
  The collector holds the outcome of a stage: the result the stage returned, or the
  synthetic result for the exception it raised.
\<close>

fun outcome_recorded :: "DiagnosticsCollector \<Rightarrow> string \<times> stage_outcome \<Rightarrow> bool" where
  "outcome_recorded c (name, StageReturned co result) =
     (dict_get (stage_status c) name = Some result)"
| "outcome_recorded c (name, StageRaised co exc) =
     (dict_get (stage_status c) name = Some (unhandled_exception_result name exc))"

text \<open>The invariant of the artifact.\<close>

definition traceable :: "pydict \<Rightarrow> bool" where
  "traceable co = (has_identity co \<and> has_source_url co)"

text \<open>
  \<open>ensures I m Q\<close>: started in a state that satisfies \<open>I\<close>, the computation \<open>m\<close> leaves a
  state that satisfies \<open>I\<close>, whether it returns or raises, and what it returns
  satisfies \<open>Q\<close>.
\<close>

definition ensures :: "('s \<Rightarrow> bool) \<Rightarrow> ('s, 'a) eff \<Rightarrow> ('a \<Rightarrow> bool) \<Rightarrow> bool" where
  "ensures I m Q = (\<forall>s. I s \<longrightarrow> I (snd (m s)) \<and> (\<forall>x. fst (m s) = Inr x \<longrightarrow> Q x))"

section \<open>Example inputs\<close>

text \<open>Two stage results that repeat one fix text, at stage level and in a failure.\<close>

definition example_result :: "string \<Rightarrow> StageResult" where
  "example_result name =
     \<lparr> stage_name = name, success = False, warnings = [''slow''], errors = [''failed''],
       failures = [\<lparr> sf_stage = name, sf_type = SOURCE_ERROR, sf_cause = ''network'',
                    sf_impact = ''no data'',
                    sf_suggested_fixes = [''Review logs'', ''Retry later''] \<rparr>],
       suggested_fixes = [''Review logs''], execution_time_ms = None \<rparr>"

text \<open>A world in which nothing has happened yet.\<close>

definition world0 :: world where
  "world0 = \<lparr> MODEL_loaded = False, clock_reads = 0, calls = [] \<rparr>"

text \<open>
  No captions are published; audio acquisition works; the model hears nothing and answers
  two blanks.
\<close>

definition env_silent_audio :: env where
  "env_silent_audio =
     \<lparr> import_caption_api = None,
       get_transcript = (\<lambda>video_id. Inl (Exn NoTranscriptFound ''no transcript found'')),
       makedirs = (\<lambda>d. None),
       temporary_directory = Inr ''/tmp/t'',
       subprocess_run = (\<lambda>cmd. None),
       load_model = (\<lambda>name device. None),
       model_transcribe = (\<lambda>path. Inr (Some ''  '')),
       tmp_cleanup = (\<lambda>d. None),
       time_time = (\<lambda>n. of_nat n),
       DEVICE = ''cpu'' \<rparr>"

text \<open>The same, with a model that transcribes speech.\<close>

definition env_spoken_audio :: env where
  "env_spoken_audio = env_silent_audio \<lparr> model_transcribe := (\<lambda>path. Inr (Some '' hello '')) \<rparr>"

text \<open>Captions are published.\<close>

definition env_captions :: env where
  "env_captions = env_silent_audio \<lparr> get_transcript := (\<lambda>video_id. Inr [''never'', ''gonna'']) \<rparr>"

text \<open>The caption client library cannot be imported.\<close>

definition env_no_caption_api :: env where
  "env_no_caption_api =
     env_silent_audio
       \<lparr> import_caption_api :=
           Some (Exn OtherException ''No module named youtube_transcript_api'') \<rparr>"

definition example_url :: string where
  "example_url = ''https://youtu.be/watch?v=abc''"

definition default_config :: TranscriptionConfig where
  "default_config = \<lparr> cfg_download_audio_dir = None, cfg_transcribe = True \<rparr>"



section \<open>Basic facts\<close>

lemmas eff_defs = then_do_def try_except_def ret_def raise_def lift_def ext_call_def
  unit_answer_def read_time_def

lemma dict_has_dict_set: "dict_has (dict_set d k v) k' = (k' = k \<or> dict_has d k')"
  by (induction d k v rule: dict_set.induct) (auto simp: dict_has_def)

lemma dict_get_dict_set: "dict_get (dict_set d k v) k' = (if k' = k then Some v else dict_get d k')"
  by (induction d k v rule: dict_set.induct) (auto simp: dict_get_def)

lemma keys_dict_set_new: "\<not> dict_has d k \<Longrightarrow> map fst (dict_set d k v) = map fst d @ [k]"
  by (induction d k v rule: dict_set.induct) (auto simp: dict_has_def)

subsection \<open>Rules for \<open>ensures\<close>\<close>

lemma ensures_ret: "Q x \<Longrightarrow> ensures I (ret x) Q"
  by (simp add: ensures_def ret_def)

lemma ensures_raise: "ensures I (raise e) Q"
  by (simp add: ensures_def raise_def)

lemma ensures_lift: "(\<And>x. r = Inr x \<Longrightarrow> Q x) \<Longrightarrow> ensures I (lift r) Q"
  by (cases r) (simp_all add: ensures_def lift_def)

lemma ensures_then_do:
  assumes "ensures I m (\<lambda>x. True)" and "\<And>x. ensures I (f x) Q"
  shows "ensures I (then_do m f) Q"
  unfolding ensures_def
proof (intro allI impI)
  fix s assume "I s"
  with assms(1) have 1: "I (snd (m s))" by (simp add: ensures_def)
  show "I (snd (then_do m f s)) \<and> (\<forall>x. fst (then_do m f s) = Inr x \<longrightarrow> Q x)"
  proof (cases "m s")
    case (Pair r s')
    show ?thesis
    proof (cases r)
      case (Inl e)
      with Pair 1 show ?thesis by (simp add: then_do_def)
    next
      case (Inr x)
      with Pair 1 assms(2) [of x] show ?thesis by (simp add: then_do_def ensures_def)
    qed
  qed
qed

lemma ensures_try_except:
  assumes "ensures I m Q" and "\<And>e. ensures I (h e) Q"
  shows "ensures I (try_except m h) Q"
  unfolding ensures_def
proof (intro allI impI)
  fix s assume "I s"
  with assms(1) have 1: "I (snd (m s))" "\<And>x. fst (m s) = Inr x \<Longrightarrow> Q x"
    by (simp_all add: ensures_def)
  show "I (snd (try_except m h s)) \<and> (\<forall>x. fst (try_except m h s) = Inr x \<longrightarrow> Q x)"
  proof (cases "m s")
    case (Pair r s')
    show ?thesis
    proof (cases r)
      case (Inl e)
      with Pair 1 assms(2) [of e] show ?thesis by (simp add: try_except_def ensures_def)
    next
      case (Inr x)
      with Pair 1 show ?thesis by (simp add: try_except_def)
    qed
  qed
qed

lemma ensures_if:
  "(b \<Longrightarrow> ensures I m1 Q) \<Longrightarrow> (\<not> b \<Longrightarrow> ensures I m2 Q) \<Longrightarrow> ensures I (if b then m1 else m2) Q"
  by simp

lemma ensures_case_option:
  "(x = None \<Longrightarrow> ensures I m1 Q) \<Longrightarrow> (\<And>y. x = Some y \<Longrightarrow> ensures I (m2 y) Q)
     \<Longrightarrow> ensures I (case x of None \<Rightarrow> m1 | Some y \<Rightarrow> m2 y) Q"
  by (cases x) simp_all

lemma ensures_let: "ensures I (f x) Q \<Longrightarrow> ensures I (let y = x in f y) Q"
  by simp

lemmas ensures_structure = ensures_then_do ensures_try_except ensures_if ensures_case_option
  ensures_let ensures_ret ensures_raise ensures_lift

section \<open>The diagnostics collector\<close>

lemma add_stage_result_keeps_keys:
  "dict_has (stage_status c) k \<Longrightarrow> dict_has (stage_status (snd (add_stage_result c r))) k"
  by (simp add: add_stage_result_def dict_has_dict_set)

lemma submit_all_keeps_keys:
  "dict_has (stage_status c) k \<Longrightarrow> dict_has (stage_status (submit_all c rs)) k"
  unfolding submit_all_def
  by (induction rs arbitrary: c) (simp_all add: add_stage_result_keeps_keys)

lemma add_stage_result_accepted_has_key:
  "add_stage_result c r = (Inr (), c') \<Longrightarrow> dict_has (stage_status c') (stage_name r)"
  by (auto simp: add_stage_result_def dict_has_dict_set split: if_splits)

lemma add_stage_result_new:
  "\<not> dict_has (stage_status c) (stage_name r) \<Longrightarrow>
     \<exists>c'. add_stage_result c r = (Inr (), c')
        \<and> map fst (stage_status c') = map fst (stage_status c) @ [stage_name r]
        \<and> (\<forall>k. dict_get (stage_status c') k =
                  (if k = stage_name r then Some r else dict_get (stage_status c) k))"
  by (simp add: add_stage_result_def keys_dict_set_new dict_get_dict_set)

text \<open>
  Claim C7. Once a result for a stage name has been accepted, every later call of
  \<open>add_stage_result\<close> with a result of that name, whatever was submitted in between,
  raises the duplicate error, and the collector after the call is the collector before
  it: the stage map and the three global lists are unchanged.
\<close>

theorem add_stage_result_duplicate_rejected:
  assumes "add_stage_result c0 r1 = (Inr (), c1)"
    and "stage_name r2 = stage_name r1"
  shows "add_stage_result (submit_all c1 rs) r2 =
           (Inl (Exn ValueError (''Duplicate stage result for '' @ stage_name r2)),
            submit_all c1 rs)"
proof -
  have "dict_has (stage_status c1) (stage_name r2)"
    using assms add_stage_result_accepted_has_key by simp
  then have "dict_has (stage_status (submit_all c1 rs)) (stage_name r2)"
    by (rule submit_all_keeps_keys)
  then show ?thesis
    by (simp add: add_stage_result_def)
qed

theorem add_stage_result_duplicate_rejected_witness:
  "add_stage_result (DiagnosticsCollector_init ''run'') (example_result ''fetch_metadata'')
     = (Inr (), snd (add_stage_result (DiagnosticsCollector_init ''run'')
                       (example_result ''fetch_metadata'')))
   \<and> stage_name ((example_result ''fetch_metadata'')\<lparr>success := True\<rparr>)
       = stage_name (example_result ''fetch_metadata'')
   \<and> add_stage_result
        (submit_all (snd (add_stage_result (DiagnosticsCollector_init ''run'')
                            (example_result ''fetch_metadata'')))
           [example_result ''fetch_transcript''])
        ((example_result ''fetch_metadata'')\<lparr>success := True\<rparr>)
       = (Inl (Exn ValueError ''Duplicate stage result for fetch_metadata''),
          submit_all (snd (add_stage_result (DiagnosticsCollector_init ''run'')
                             (example_result ''fetch_metadata'')))
            [example_result ''fetch_transcript''])"
proof -
  have a: "add_stage_result (DiagnosticsCollector_init ''run'') (example_result ''fetch_metadata'')
     = (Inr (), snd (add_stage_result (DiagnosticsCollector_init ''run'')
                       (example_result ''fetch_metadata'')))"
    by (simp add: add_stage_result_def DiagnosticsCollector_init_def example_result_def dict_has_def)
  have b: "stage_name ((example_result ''fetch_metadata'')\<lparr>success := True\<rparr>)
             = stage_name (example_result ''fetch_metadata'')"
    by simp
  show ?thesis
    using a b add_stage_result_duplicate_rejected [OF a b, of "[example_result ''fetch_transcript'']"]
    by (simp add: example_result_def)
qed

text \<open>
  Claim C8. After any sequence of \<open>add_stage_result\<close> calls on a new collector, the
  \<open>suggested_fixes\<close> entry of what \<open>build_diagnostics\<close> returns is a list without
  duplicates; its elements are exactly the fixes collected, from the stages and from
  their failures. The hypothesis is what Python guarantees of \<^verbatim>\<open>list(set(xs))\<close>.
\<close>

theorem build_diagnostics_suggested_fixes_distinct:
  assumes "set_list_ok set_list"
  shows "\<exists>vs. dict_get (fst (build_diagnostics set_list
                               (submit_all (DiagnosticsCollector_init rid) rs)))
                 ''suggested_fixes'' = Some (PList vs)
              \<and> distinct vs
              \<and> set vs = PStr ` set (global_suggested_fixes
                                        (submit_all (DiagnosticsCollector_init rid) rs))"
  using assms
  by (simp add: build_diagnostics_def Diagnostics_model_dump_def dict_get_def set_list_ok_def
                distinct_map inj_on_def)

theorem build_diagnostics_suggested_fixes_distinct_witness:
  "set_list_ok remdups
   \<and> (\<exists>vs. dict_get (fst (build_diagnostics remdups
                             (submit_all (DiagnosticsCollector_init ''run'')
                                [example_result ''fetch_metadata'', example_result ''fetch_transcript''])))
               ''suggested_fixes'' = Some (PList vs)
            \<and> distinct vs
            \<and> set vs = PStr ` set (global_suggested_fixes
                                      (submit_all (DiagnosticsCollector_init ''run'')
                                         [example_result ''fetch_metadata'',
                                          example_result ''fetch_transcript''])))"
proof -
  have ok: "set_list_ok remdups"
    by (simp add: set_list_ok_def)
  from ok build_diagnostics_suggested_fixes_distinct [OF ok] show ?thesis
    by blast
qed

text \<open>
  Claim C9. \<open>build_diagnostics\<close> leaves the collector as it was, so a second call right
  after the first returns the same value (and the same collector).
\<close>

theorem build_diagnostics_idempotent:
  "build_diagnostics set_list (snd (build_diagnostics set_list c)) = build_diagnostics set_list c"
  by (simp add: build_diagnostics_def)

section \<open>The transcription subsystem\<close>

lemma save_dir_cases:
  obtains (temp) "save_dir = None \<or> save_dir = Some []"
  | (keep) d ds where "save_dir = Some (d # ds)"
  by (cases save_dir; cases "the save_dir") auto

lemma transcribe_audio_no_transcribe:
  "(case transcribe_audio env url save_dir False w of
      (Inr r, w') \<Rightarrow>
         filter is_model_call (calls w') = filter is_model_call (calls w)
       \<and> MODEL_loaded w' = MODEL_loaded w
       \<and> take (length (calls w)) (calls w') = calls w
       \<and> list_all (\<lambda>c. is_audio_call c \<or> is_cleanup_call c)
            (drop (length (calls w)) (calls w'))
       \<and> t_success r = audio_steps_succeed env url save_dir
       \<and> (t_success r \<longrightarrow> audio_acquired env (drop (length (calls w)) (calls w')))
       \<and> transcript_text r = []
       \<and> t_method r = (if t_success r then Some ''whisper'' else None)
    | (Inl e, w') \<Rightarrow> False)"
proof (cases save_dir rule: save_dir_cases)
  case temp
  then show ?thesis
    unfolding transcribe_audio_def transcribe_audio_body_def download_audio_def
      audio_steps_succeed_def
    by (cases "temporary_directory env";
        cases "subprocess_run env (yt_dlp_command url
                 (os_path_join (projr (temporary_directory env)) ''audio.wav''))";
        cases "tmp_cleanup env (projr (temporary_directory env))")
       (auto simp add: eff_defs TranscriptionResult_init_def Let_def audio_acquired_def)
next
  case (keep d ds)
  then show ?thesis
    unfolding transcribe_audio_def transcribe_audio_body_def download_audio_def
      audio_steps_succeed_def
    by (cases "extract_video_id url"; cases "makedirs env (d # ds)";
        cases "subprocess_run env (yt_dlp_command url
                 (os_path_join (d # ds) (projr (extract_video_id url) @ ''.wav'')))")
       (simp_all add: eff_defs TranscriptionResult_init_def Let_def audio_acquired_def)
qed

lemma transcribe_audio_with_transcribe:
  "(case transcribe_audio env url save_dir True w of
      (Inr r, w') \<Rightarrow>
         (t_success r \<longrightarrow> t_method r = Some ''whisper'')
       \<and> (\<forall>p t. ModelTranscribe p \<in> set (drop (length (calls w)) (calls w'))
                \<longrightarrow> model_transcribe env p = Inr t
                \<longrightarrow> py_strip (case t of None \<Rightarrow> [] | Some s \<Rightarrow> s) = []
                \<longrightarrow> \<not> t_success r \<and> audio_acquired env (drop (length (calls w)) (calls w')))
    | (Inl e, w') \<Rightarrow> False)"
proof (cases save_dir rule: save_dir_cases)
  case temp
  then show ?thesis
    unfolding transcribe_audio_def transcribe_audio_body_def download_audio_def
      load_model_cached_def
    by (cases "temporary_directory env";
        cases "subprocess_run env (yt_dlp_command url
                 (os_path_join (projr (temporary_directory env)) ''audio.wav''))";
        cases "MODEL_loaded w";
        cases "load_model env ''base'' (DEVICE env)";
        cases "model_transcribe env (os_path_join (projr (temporary_directory env)) ''audio.wav'')";
        cases "tmp_cleanup env (projr (temporary_directory env))")
       (auto simp add: eff_defs TranscriptionResult_init_def audio_acquired_def Let_def)
next
  case (keep d ds)
  then show ?thesis
    unfolding transcribe_audio_def transcribe_audio_body_def download_audio_def
      load_model_cached_def
    by (cases "extract_video_id url"; cases "makedirs env (d # ds)";
        cases "subprocess_run env (yt_dlp_command url
                 (os_path_join (d # ds) (projr (extract_video_id url) @ ''.wav'')))";
        cases "MODEL_loaded w";
        cases "load_model env ''base'' (DEVICE env)";
        cases "model_transcribe env (os_path_join (d # ds) (projr (extract_video_id url) @ ''.wav''))")
       (auto simp add: eff_defs TranscriptionResult_init_def audio_acquired_def Let_def)
qed

lemma transcribe_audio_success_method:
  "transcribe_audio env url save_dir do_transcribe w = (x, w') \<Longrightarrow>
     \<exists>r. x = Inr r \<and> (t_success r \<longrightarrow> t_method r = Some ''whisper'')"
  using transcribe_audio_no_transcribe [where env=env and url=url and save_dir=save_dir and w=w]
        transcribe_audio_with_transcribe [where env=env and url=url and save_dir=save_dir and w=w]
  by (cases do_transcribe; cases x) (auto split: if_splits)

lemma get_captions_cases:
  "(case get_captions env url w of
      (Inr r, w') \<Rightarrow>
         import_caption_api env = None
       \<and> filter is_audio_call (calls w') = filter is_audio_call (calls w)
       \<and> filter is_model_call (calls w') = filter is_model_call (calls w)
       \<and> MODEL_loaded w' = MODEL_loaded w
       \<and> audio_path r = None
       \<and> t_method r = (if t_success r then Some ''captions'' else None)
    | (Inl e, w') \<Rightarrow> import_caption_api env \<noteq> None \<and> e = unbound_TranscriptsDisabled)"
  unfolding get_captions_def
  by (cases "import_caption_api env"; cases "extract_video_id url";
      cases "get_transcript env (projr (extract_video_id url))")
     (simp_all add: eff_defs TranscriptionResult_init_def)

text \<open>
  With the caption client importable, \<open>transcribe\<close> returns a result in every
  environment, for every reference, configuration and world.
\<close>

lemma transcribe_total_when_import_ok:
  assumes "import_caption_api env = None"
  shows "\<exists>r w'. transcribe env url config w = (Inr r, w')"
proof -
  obtain x w1 where c: "get_captions env url (snd (read_time env w)) = (x, w1)"
    by (cases "get_captions env url (snd (read_time env w))")
  with assms get_captions_cases [where env=env and url=url and w="snd (read_time env w)"]
  obtain cr where x: "x = Inr cr" by (cases x) auto
  obtain y w2 where a: "transcribe_audio env url (cfg_download_audio_dir config)
                          (cfg_transcribe config) w1 = (y, w2)"
    by (cases "transcribe_audio env url (cfg_download_audio_dir config) (cfg_transcribe config) w1")
  from transcribe_audio_success_method [OF a] obtain wr where y: "y = Inr wr" by blast
  show ?thesis
    using c x a y by (simp add: transcribe_def eff_defs)
qed

text \<open>
  Claim C3, as the code has it. With \<open>do_transcribe = False\<close> the audio strategy always
  returns a result. It performs only audio acquisition: it makes no call to the
  transcription model and leaves the model cache alone, and every call it makes acquires
  audio or removes the temporary directory. The result reports success exactly when every
  step of the acquisition ended normally, and then the \<^verbatim>\<open>yt-dlp\<close> process was run
  and ended normally during the call. The \<open>transcript_text\<close> is empty. The \<open>method\<close>
  field is \<^verbatim>\<open>"whisper"\<close>, not unset, when the result reports success; it is unset
  exactly when the result reports failure.
\<close>

theorem transcribe_audio_without_transcription:
  "(case transcribe_audio env url save_dir False w of
      (Inr r, w') \<Rightarrow>
         filter is_model_call (calls w') = filter is_model_call (calls w)
       \<and> MODEL_loaded w' = MODEL_loaded w
       \<and> take (length (calls w)) (calls w') = calls w
       \<and> list_all (\<lambda>c. is_audio_call c \<or> is_cleanup_call c)
            (drop (length (calls w)) (calls w'))
       \<and> t_success r = audio_steps_succeed env url save_dir
       \<and> (t_success r \<longrightarrow> audio_acquired env (drop (length (calls w)) (calls w')))
       \<and> transcript_text r = []
       \<and> t_method r = (if t_success r then Some ''whisper'' else None)
    | (Inl e, w') \<Rightarrow> False)"
  by (rule transcribe_audio_no_transcribe)

theorem transcribe_audio_without_transcription_witness:
  "audio_steps_succeed env_silent_audio example_url None
   \<and> (case transcribe_audio env_silent_audio example_url None False world0 of
         (Inr r, w') \<Rightarrow>
            t_success r
          \<and> t_method r = Some ''whisper''
          \<and> transcript_text r = []
          \<and> audio_acquired env_silent_audio (calls w')
          \<and> filter is_model_call (calls w') = []
       | (Inl e, w') \<Rightarrow> False)"
proof -
  have ok: "audio_steps_succeed env_silent_audio example_url None"
    by code_simp
  have w0: "calls world0 = []"
    by (simp add: world0_def)
  show ?thesis
    using ok w0
      transcribe_audio_without_transcription
        [where env=env_silent_audio and url=example_url and save_dir=None and w=world0]
    by (cases "transcribe_audio env_silent_audio example_url None False world0";
        cases "fst (transcribe_audio env_silent_audio example_url None False world0)")
       simp_all
qed

text \<open>
  Claim C3 as stated fails: with transcription switched off and the audio acquired, the
  result's \<open>method\<close> is \<^verbatim>\<open>"whisper"\<close>, not unset.
\<close>

theorem transcribe_audio_method_unset_counterexample:
  "fst (transcribe_audio env_silent_audio example_url None False world0) =
     Inr \<lparr> t_success = True, transcript_text = [], audio_path = None,
           t_method = Some ''whisper'', t_warnings = [''Used audio fallback (slower)''],
           t_errors = [], t_suggested_fixes = [], execution_time_sec = 0 \<rparr>"
  by code_simp

text \<open>
  Claim C4. Transcription is enabled; the model was called during the call, on the audio
  at \<open>p\<close>, and what it answered there is empty or white space. Then the result reports
  failure, although the audio was acquired (the \<^verbatim>\<open>yt-dlp\<close> process was run during
  the call and ended normally).
\<close>

theorem transcribe_audio_empty_transcript_fails:
  assumes "ModelTranscribe p \<in> set (drop (length (calls w))
                                    (calls (snd (transcribe_audio env url save_dir True w))))"
    and "model_transcribe env p = Inr t"
    and "py_strip (case t of None \<Rightarrow> [] | Some s \<Rightarrow> s) = []"
  shows "(case transcribe_audio env url save_dir True w of
            (Inr r, w') \<Rightarrow>
               \<not> t_success r \<and> audio_acquired env (drop (length (calls w)) (calls w'))
          | (Inl e, w') \<Rightarrow> False)"
  using assms transcribe_audio_with_transcribe [where env=env and url=url and save_dir=save_dir and w=w]
  by (cases "transcribe_audio env url save_dir True w"; cases "fst (transcribe_audio env url save_dir True w)")
     auto

theorem transcribe_audio_empty_transcript_fails_witness:
  "ModelTranscribe ''/tmp/t/audio.wav''
     \<in> set (drop (length (calls world0))
               (calls (snd (transcribe_audio env_silent_audio example_url None True world0))))
   \<and> model_transcribe env_silent_audio ''/tmp/t/audio.wav'' = Inr (Some ''  '')
   \<and> py_strip (case Some ''  '' of None \<Rightarrow> [] | Some s \<Rightarrow> s) = []
   \<and> (case transcribe_audio env_silent_audio example_url None True world0 of
         (Inr r, w') \<Rightarrow>
            \<not> t_success r \<and> audio_acquired env_silent_audio (drop (length (calls world0)) (calls w'))
       | (Inl e, w') \<Rightarrow> False)"
proof -
  have a: "ModelTranscribe ''/tmp/t/audio.wav''
     \<in> set (drop (length (calls world0))
               (calls (snd (transcribe_audio env_silent_audio example_url None True world0))))"
    by code_simp
  have b: "model_transcribe env_silent_audio ''/tmp/t/audio.wav'' = Inr (Some ''  '')"
    by (simp add: env_silent_audio_def)
  have c: "py_strip (case Some ''  '' of None \<Rightarrow> [] | Some s \<Rightarrow> s) = []"
    by code_simp
  from a b c transcribe_audio_empty_transcript_fails [OF a b c] show ?thesis
    by blast
qed

text \<open>
  Claim C5. The caption attempt returns a failure and the audio strategy a success. Then
  \<open>transcribe\<close> returns a result whose \<open>method\<close> is \<^verbatim>\<open>"whisper"\<close> and whose
  warnings, errors and suggested fixes are those of the audio strategy followed by those
  of the caption attempt, so they contain every one of the latter.
\<close>

theorem transcribe_fallback_merges_caption_diagnostics:
  assumes "get_captions env url (snd (read_time env w)) = (Inr cr, w1)"
    and "\<not> t_success cr"
    and "transcribe_audio env url (cfg_download_audio_dir config) (cfg_transcribe config) w1
           = (Inr wr, w2)"
    and "t_success wr"
  shows "(case transcribe env url config w of
            (Inr res, w3) \<Rightarrow>
               t_method res = Some ''whisper''
             \<and> t_warnings res = t_warnings wr @ t_warnings cr
             \<and> t_errors res = t_errors wr @ t_errors cr
             \<and> t_suggested_fixes res = t_suggested_fixes wr @ t_suggested_fixes cr
             \<and> set (t_warnings cr) \<subseteq> set (t_warnings res)
             \<and> set (t_errors cr) \<subseteq> set (t_errors res)
             \<and> set (t_suggested_fixes cr) \<subseteq> set (t_suggested_fixes res)
          | (Inl e, w3) \<Rightarrow> False)"
  using assms transcribe_audio_success_method [OF assms(3)]
  by (simp add: transcribe_def eff_defs)

theorem transcribe_fallback_merges_caption_diagnostics_witness:
  "get_captions env_spoken_audio example_url (snd (read_time env_spoken_audio world0))
     = (Inr ((TranscriptionResult_init False)
               \<lparr> t_warnings := [''YouTube captions unavailable''],
                 t_suggested_fixes := [''Fallback to audio transcription''] \<rparr>),
        \<lparr> MODEL_loaded = False, clock_reads = 1,
          calls = [ImportCaptionApi, GetTranscript ''abc''] \<rparr>)
   \<and> \<not> t_success ((TranscriptionResult_init False)
                     \<lparr> t_warnings := [''YouTube captions unavailable''],
                       t_suggested_fixes := [''Fallback to audio transcription''] \<rparr>)
   \<and> transcribe_audio env_spoken_audio example_url (cfg_download_audio_dir default_config)
        (cfg_transcribe default_config)
        \<lparr> MODEL_loaded = False, clock_reads = 1,
          calls = [ImportCaptionApi, GetTranscript ''abc''] \<rparr>
     = (Inr ((TranscriptionResult_init True)
               \<lparr> transcript_text := ''hello'', t_method := Some ''whisper'',
                 t_warnings := [''Used audio fallback (slower)''] \<rparr>),
        snd (transcribe_audio env_spoken_audio example_url (cfg_download_audio_dir default_config)
               (cfg_transcribe default_config)
               \<lparr> MODEL_loaded = False, clock_reads = 1,
                 calls = [ImportCaptionApi, GetTranscript ''abc''] \<rparr>))
   \<and> t_success ((TranscriptionResult_init True)
                   \<lparr> transcript_text := ''hello'', t_method := Some ''whisper'',
                     t_warnings := [''Used audio fallback (slower)''] \<rparr>)
   \<and> (case transcribe env_spoken_audio example_url default_config world0 of
         (Inr res, w3) \<Rightarrow>
            t_method res = Some ''whisper''
          \<and> t_warnings res = [''Used audio fallback (slower)'', ''YouTube captions unavailable'']
          \<and> t_errors res = []
          \<and> t_suggested_fixes res = [''Fallback to audio transcription'']
       | (Inl e, w3) \<Rightarrow> False)"
proof -
  let ?cr = "(TranscriptionResult_init False)
               \<lparr> t_warnings := [''YouTube captions unavailable''],
                 t_suggested_fixes := [''Fallback to audio transcription''] \<rparr>"
  let ?w1 = "\<lparr> MODEL_loaded = False, clock_reads = 1,
               calls = [ImportCaptionApi, GetTranscript ''abc''] \<rparr>"
  let ?wr = "(TranscriptionResult_init True)
               \<lparr> transcript_text := ''hello'', t_method := Some ''whisper'',
                 t_warnings := [''Used audio fallback (slower)''] \<rparr>"
  have a: "get_captions env_spoken_audio example_url (snd (read_time env_spoken_audio world0))
             = (Inr ?cr, ?w1)"
    by code_simp
  have b: "\<not> t_success ?cr"
    by (simp add: TranscriptionResult_init_def)
  have c0: "fst (transcribe_audio env_spoken_audio example_url (cfg_download_audio_dir default_config)
             (cfg_transcribe default_config) ?w1) = Inr ?wr"
    by code_simp
  then have c: "transcribe_audio env_spoken_audio example_url (cfg_download_audio_dir default_config)
             (cfg_transcribe default_config) ?w1
           = (Inr ?wr, snd (transcribe_audio env_spoken_audio example_url
                              (cfg_download_audio_dir default_config)
                              (cfg_transcribe default_config) ?w1))"
    by (simp add: prod_eq_iff)
  have d: "t_success ?wr"
    by (simp add: TranscriptionResult_init_def)
  show ?thesis
    using a b c d transcribe_fallback_merges_caption_diagnostics [OF a b c d]
    by (cases "transcribe env_spoken_audio example_url default_config world0";
        cases "fst (transcribe env_spoken_audio example_url default_config world0)")
       (simp_all add: TranscriptionResult_init_def)
qed

text \<open>
  Claim C6. The caption strategy returns a success. Then \<open>transcribe\<close> returns that very
  result, with only the elapsed time filled in: its \<open>method\<close> is \<^verbatim>\<open>"captions"\<close>, it
  carries no audio path, and the call makes no call that acquires audio (no directory is
  made, no temporary directory created, no process run).
\<close>

theorem transcribe_captions_fast_path:
  assumes "get_captions env url (snd (read_time env w)) = (Inr cr, w1)"
    and "t_success cr"
  shows "(case transcribe env url config w of
            (Inr res, w2) \<Rightarrow>
               t_method res = Some ''captions''
             \<and> audio_path res = None
             \<and> filter is_audio_call (calls w2) = filter is_audio_call (calls w)
             \<and> res = cr\<lparr>execution_time_sec := execution_time_sec res\<rparr>
          | (Inl e, w2) \<Rightarrow> False)"
  using assms get_captions_cases [where env=env and url=url and w="snd (read_time env w)"]
  by (simp add: transcribe_def eff_defs)

theorem transcribe_captions_fast_path_witness:
  "get_captions env_captions example_url (snd (read_time env_captions world0))
     = (Inr ((TranscriptionResult_init True)
               \<lparr> transcript_text := ''never gonna'', t_method := Some ''captions'' \<rparr>),
        \<lparr> MODEL_loaded = False, clock_reads = 1,
          calls = [ImportCaptionApi, GetTranscript ''abc''] \<rparr>)
   \<and> t_success ((TranscriptionResult_init True)
                   \<lparr> transcript_text := ''never gonna'', t_method := Some ''captions'' \<rparr>)
   \<and> (case transcribe env_captions example_url default_config world0 of
         (Inr res, w2) \<Rightarrow>
            t_method res = Some ''captions''
          \<and> audio_path res = None
          \<and> filter is_audio_call (calls w2) = filter is_audio_call (calls world0)
          \<and> res = ((TranscriptionResult_init True)
                      \<lparr> transcript_text := ''never gonna'', t_method := Some ''captions'' \<rparr>)
                   \<lparr>execution_time_sec := execution_time_sec res\<rparr>
       | (Inl e, w2) \<Rightarrow> False)"
proof -
  let ?cr = "(TranscriptionResult_init True)
               \<lparr> transcript_text := ''never gonna'', t_method := Some ''captions'' \<rparr>"
  let ?w1 = "\<lparr> MODEL_loaded = False, clock_reads = 1,
               calls = [ImportCaptionApi, GetTranscript ''abc''] \<rparr>"
  have a: "get_captions env_captions example_url (snd (read_time env_captions world0))
             = (Inr ?cr, ?w1)"
    by code_simp
  have b: "t_success ?cr"
    by (simp add: TranscriptionResult_init_def)
  from a b transcribe_captions_fast_path [OF a b, of default_config] show ?thesis
    by blast
qed

text \<open>
  Claim C10 fails where the caption client library cannot be imported: the import
  raises inside the \<^verbatim>\<open>try\<close> block of \<open>get_captions\<close>, the first \<^verbatim>\<open>except\<close>
  clause names classes that the failed import was to bind, and the
  \<^verbatim>\<open>UnboundLocalError\<close> of that lookup leaves \<open>get_captions\<close> and \<open>transcribe\<close>.
\<close>

theorem transcribe_propagates_import_failure:
  "fst (transcribe env_no_caption_api example_url default_config world0)
     = Inl unbound_TranscriptsDisabled"
  by code_simp

section \<open>The stages and the orchestrator\<close>

subsection \<open>The statements on the artifact\<close>

lemma ensures_co_section: "ensures I (co_section k) (\<lambda>x. True)"
  by (simp add: ensures_def co_section_def)

lemma ensures_co_section_or_empty: "ensures I (co_section_or_empty k) (\<lambda>x. True)"
  by (simp add: ensures_def co_section_or_empty_def)

lemma any_co_set_item: "ensures (\<lambda>co. True) (co_set_item sec k v) (\<lambda>x. True)"
  by (simp add: ensures_def)

lemma any_co_assign: "ensures (\<lambda>co. True) (co_assign k v) (\<lambda>x. True)"
  by (simp add: ensures_def)

lemma any_co_append: "ensures (\<lambda>co. True) (co_append_diagnostics_warning w) (\<lambda>x. True)"
  by (simp add: ensures_def)

lemma traceable_dict_set_other:
  "k \<noteq> ''identity'' \<Longrightarrow> k \<noteq> ''source'' \<Longrightarrow> traceable (dict_set co k v) = traceable co"
  by (simp add: traceable_def has_identity_def has_source_url_def dict_get_dict_set)

lemma traceable_source_item:
  "traceable co \<Longrightarrow> dict_get co ''source'' = Some (PDict d) \<Longrightarrow> (k = ''url'' \<Longrightarrow> \<exists>u. v = PStr u)
     \<Longrightarrow> traceable (dict_set co ''source'' (PDict (dict_set d k v)))"
  by (auto simp: traceable_def has_identity_def has_source_url_def dict_get_dict_set
      split: option.splits pyval.splits)

lemma traceable_co_set_item_source:
  assumes "k = ''url'' \<Longrightarrow> \<exists>u. v = PStr u"
  shows "ensures traceable (co_set_item ''source'' k v) (\<lambda>x. True)"
  unfolding ensures_def
proof (intro allI impI conjI TrueI)
  fix co assume t: "traceable co"
  then obtain d where d: "dict_get co ''source'' = Some (PDict d)"
    by (auto simp: traceable_def has_source_url_def split: option.splits pyval.splits)
  show "traceable (snd (co_set_item ''source'' k v co))"
    using traceable_source_item [OF t d assms] d by (simp add: co_set_item_def)
qed

lemma traceable_co_set_item_other:
  assumes "sec \<noteq> ''identity''" "sec \<noteq> ''source''"
  shows "ensures traceable (co_set_item sec k v) (\<lambda>x. True)"
  unfolding ensures_def
proof (intro allI impI conjI TrueI)
  fix co assume t: "traceable co"
  show "traceable (snd (co_set_item sec k v co))"
    using t assms
    by (cases "dict_get co sec"; cases "the (dict_get co sec)")
       (simp_all add: co_set_item_def traceable_dict_set_other)
qed

lemma traceable_co_assign:
  "sec \<noteq> ''identity'' \<Longrightarrow> sec \<noteq> ''source'' \<Longrightarrow> ensures traceable (co_assign sec v) (\<lambda>x. True)"
  by (simp add: ensures_def co_assign_def traceable_dict_set_other)

lemma traceable_co_append: "ensures traceable (co_append_diagnostics_warning w) (\<lambda>x. True)"
  unfolding ensures_def
proof (intro allI impI conjI TrueI)
  fix co assume t: "traceable co"
  show "traceable (snd (co_append_diagnostics_warning w co))"
  proof (cases "dict_get co ''diagnostics''")
    case None
    with t show ?thesis by (simp add: co_append_diagnostics_warning_def)
  next
    case (Some x)
    show ?thesis
    proof (cases x)
      case (PDict d)
      with Some t show ?thesis
        by (cases "dict_get d ''warnings''"; cases "the (dict_get d ''warnings'')")
           (simp_all add: co_append_diagnostics_warning_def traceable_dict_set_other)
    qed (use Some t in \<open>simp_all add: co_append_diagnostics_warning_def\<close>)
  qed
qed

lemmas ensures_any = ensures_co_section ensures_co_section_or_empty any_co_set_item any_co_assign
  any_co_append

lemmas ensures_traceable = ensures_co_section ensures_co_section_or_empty
  traceable_co_set_item_source traceable_co_set_item_other traceable_co_assign traceable_co_append

lemma run_stage_body_returned:
  assumes "ensures (\<lambda>co. True) body Q" and "run_stage_body body co = StageReturned co' r"
  shows "Q r"
proof -
  from assms(2) have "fst (body co) = Inr r"
    by (cases "body co"; cases "fst (body co)") (simp_all add: run_stage_body_def)
  with assms(1) show ?thesis by (simp add: ensures_def)
qed

lemma run_stage_body_traceable:
  assumes "ensures traceable body Q" and "traceable co"
  shows "traceable (artifact_after (run_stage_body body co))"
proof -
  have "artifact_after (run_stage_body body co) = snd (body co)"
    by (cases "body co"; cases "fst (body co)") (simp_all add: run_stage_body_def)
  with assms show ?thesis by (simp add: ensures_def)
qed

lemma validate_input_names:
  "validate_input_process pe co rid cfg = StageReturned co' r \<Longrightarrow> stage_name r = ''validate_input''"
  unfolding validate_input_process_def
  apply (erule run_stage_body_returned [rotated])
  apply (intro ensures_structure ensures_any; simp add: StageResult_init_def)
  done

lemma validate_input_traceable:
  "traceable co \<Longrightarrow> traceable (artifact_after (validate_input_process pe co rid cfg))"
  unfolding validate_input_process_def
  apply (erule run_stage_body_traceable [rotated])
  apply (intro ensures_structure ensures_traceable; simp)
  done

lemmas stage_result_defs = StageResult_init_def fetch_metadata_download_error_def
  fetch_metadata_unexpected_error_def fetch_transcript_result_def analyze_structure_failure_def
  analyze_semantics_failure_def Let_def

lemma fetch_metadata_names:
  "fetch_metadata_process pe co rid cfg = StageReturned co' r \<Longrightarrow> stage_name r = ''fetch_metadata''"
  unfolding fetch_metadata_process_def
  apply (erule run_stage_body_returned [rotated])
  apply (intro ensures_structure ensures_any; simp add: stage_result_defs)
  done

lemma fetch_metadata_traceable:
  "traceable co \<Longrightarrow> traceable (artifact_after (fetch_metadata_process pe co rid cfg))"
  unfolding fetch_metadata_process_def
  apply (erule run_stage_body_traceable [rotated])
  apply (intro ensures_structure ensures_traceable; simp)
  done

lemma fetch_transcript_names:
  "fetch_transcript_process pe co rid cfg = StageReturned co' r \<Longrightarrow> stage_name r = ''fetch_transcript''"
  unfolding fetch_transcript_process_def
  apply (erule run_stage_body_returned [rotated])
  apply (intro ensures_structure ensures_any; simp add: stage_result_defs)
  done

lemma fetch_transcript_traceable:
  "traceable co \<Longrightarrow> traceable (artifact_after (fetch_transcript_process pe co rid cfg))"
  unfolding fetch_transcript_process_def
  apply (erule run_stage_body_traceable [rotated])
  apply (intro ensures_structure ensures_traceable; simp)
  done

lemma analyze_structure_names:
  "analyze_structure_process pe co rid cfg = StageReturned co' r \<Longrightarrow> stage_name r = ''analyze_structure''"
  unfolding analyze_structure_process_def
  apply (erule run_stage_body_returned [rotated])
  apply (intro ensures_structure ensures_any; simp add: stage_result_defs)
  done

lemma analyze_structure_traceable:
  "traceable co \<Longrightarrow> traceable (artifact_after (analyze_structure_process pe co rid cfg))"
  unfolding analyze_structure_process_def
  apply (erule run_stage_body_traceable [rotated])
  apply (intro ensures_structure ensures_traceable; simp)
  done

lemma analyze_semantics_names:
  "analyze_semantics_process pe co rid cfg = StageReturned co' r \<Longrightarrow> stage_name r = ''analyze_semantics''"
  unfolding analyze_semantics_process_def
  apply (erule run_stage_body_returned [rotated])
  apply (intro ensures_structure ensures_any; simp add: stage_result_defs)
  done

lemma analyze_semantics_traceable:
  "traceable co \<Longrightarrow> traceable (artifact_after (analyze_semantics_process pe co rid cfg))"
  unfolding analyze_semantics_process_def
  apply (erule run_stage_body_traceable [rotated])
  apply (intro ensures_structure ensures_traceable; simp)
  done

lemma STAGES_own_names: "own_names (STAGES pe)"
  by (auto simp: own_names_def STAGES_def
      dest: validate_input_names fetch_metadata_names fetch_transcript_names
            analyze_structure_names analyze_semantics_names)

lemma STAGES_distinct: "distinct (map fst (STAGES pe))"
  by (simp add: STAGES_def)

lemma started_stages_append: "started_stages (xs @ ys) = started_stages xs @ started_stages ys"
  by (simp add: started_stages_def)

lemma run_one_stage_ok:
  assumes fresh: "\<not> dict_has (stage_status (collector s)) name"
    and own: "\<forall>co' r. f (content_object s) rid cfg = StageReturned co' r \<longrightarrow> stage_name r = name"
  shows "\<exists>s'. run_one_stage name f rid cfg s = Inr s'
     \<and> content_object s' = artifact_after (f (content_object s) rid cfg)
     \<and> map fst (stage_status (collector s')) = map fst (stage_status (collector s)) @ [name]
     \<and> started_stages (logged s') = started_stages (logged s) @ [name]
     \<and> outcome_recorded (collector s') (name, f (content_object s) rid cfg)
     \<and> (\<forall>k. k \<noteq> name \<longrightarrow> dict_get (stage_status (collector s')) k = dict_get (stage_status (collector s)) k)"
proof (cases "f (content_object s) rid cfg")
  case (StageReturned co r)
  then have n: "stage_name r = name" using own by simp
  with fresh have "\<not> dict_has (stage_status (collector s)) (stage_name r)" by simp
  from add_stage_result_new [OF this] obtain c' where
    c': "add_stage_result (collector s) r = (Inr (), c')"
      "map fst (stage_status c') = map fst (stage_status (collector s)) @ [stage_name r]"
      "\<And>k. dict_get (stage_status c') k = (if k = stage_name r then Some r else dict_get (stage_status (collector s)) k)"
    by blast
  show ?thesis
    using StageReturned n c'
    by (simp add: run_one_stage_def Let_def started_stages_append started_stages_def)
next
  case (StageRaised co exc)
  have "\<not> dict_has (stage_status (collector s)) (stage_name (unhandled_exception_result name exc))"
    using fresh by (simp add: unhandled_exception_result_def)
  from add_stage_result_new [OF this] obtain c' where
    c': "add_stage_result (collector s) (unhandled_exception_result name exc) = (Inr (), c')"
      "map fst (stage_status c') = map fst (stage_status (collector s)) @ [stage_name (unhandled_exception_result name exc)]"
      "\<And>k. dict_get (stage_status c') k = (if k = stage_name (unhandled_exception_result name exc) then Some (unhandled_exception_result name exc) else dict_get (stage_status (collector s)) k)"
    by blast
  have nm: "stage_name (unhandled_exception_result name exc) = name"
    by (simp add: unhandled_exception_result_def)
  show ?thesis
    using StageRaised c' nm
    by (simp add: run_one_stage_def handle_stage_exception_def Let_def started_stages_append started_stages_def)
qed

lemma outcome_recorded_cong:
  "dict_get (stage_status c') (fst p) = dict_get (stage_status c) (fst p) \<Longrightarrow>
     outcome_recorded c' p = outcome_recorded c p"
  by (cases p; cases "snd p") auto

lemma stage_outcomes_names: "map fst (stage_outcomes stages rid cfg co) = map fst stages"
  by (induction stages rid cfg co rule: stage_outcomes.induct) auto

lemma own_names_Cons:
  "own_names ((n, f) # rest) \<Longrightarrow> own_names rest \<and> (\<forall>co rid cfg co' r. f co rid cfg = StageReturned co' r \<longrightarrow> stage_name r = n)"
  by (auto simp: own_names_def)

lemma run_stages_ok:
  assumes "distinct (map fst stages)" and "own_names stages"
    and "\<forall>n \<in> set (map fst stages). \<not> dict_has (stage_status (collector s)) n"
  shows "\<exists>s'. run_stages stages rid cfg s = Inr s'
     \<and> map fst (stage_status (collector s')) = map fst (stage_status (collector s)) @ map fst stages
     \<and> started_stages (logged s') = started_stages (logged s) @ map fst stages
     \<and> list_all (outcome_recorded (collector s')) (stage_outcomes stages rid cfg (content_object s))
     \<and> (\<forall>k. k \<notin> set (map fst stages) \<longrightarrow> dict_get (stage_status (collector s')) k = dict_get (stage_status (collector s)) k)"
  using assms
proof (induction stages arbitrary: s)
  case Nil
  then show ?case by simp
next
  case (Cons p stages)
  obtain n f where p: "p = (n, f)" by (cases p)
  from Cons.prems p have fresh: "\<not> dict_has (stage_status (collector s)) n" by simp
  from Cons.prems(2) p have own: "own_names stages"
    and ownf: "\<forall>co' r. f (content_object s) rid cfg = StageReturned co' r \<longrightarrow> stage_name r = n"
    using own_names_Cons by blast+
  from run_one_stage_ok [where f=f and rid=rid and cfg=cfg and s=s and name=n, OF fresh ownf] obtain s1 where
    s1: "run_one_stage n f rid cfg s = Inr s1"
      "content_object s1 = artifact_after (f (content_object s) rid cfg)"
      "map fst (stage_status (collector s1)) = map fst (stage_status (collector s)) @ [n]"
      "started_stages (logged s1) = started_stages (logged s) @ [n]"
      "outcome_recorded (collector s1) (n, f (content_object s) rid cfg)"
      "\<And>k. k \<noteq> n \<Longrightarrow> dict_get (stage_status (collector s1)) k = dict_get (stage_status (collector s)) k"
    by blast
  have d: "distinct (map fst stages)" and nn: "n \<notin> set (map fst stages)"
    using Cons.prems(1) p by auto
  have fresh1: "\<forall>m \<in> set (map fst stages). \<not> dict_has (stage_status (collector s1)) m"
    using Cons.prems(3) s1(3) nn p by (auto simp: dict_has_def)
  from Cons.IH [OF d own fresh1] obtain s' where
    s': "run_stages stages rid cfg s1 = Inr s'"
      "map fst (stage_status (collector s')) = map fst (stage_status (collector s1)) @ map fst stages"
      "started_stages (logged s') = started_stages (logged s1) @ map fst stages"
      "list_all (outcome_recorded (collector s')) (stage_outcomes stages rid cfg (content_object s1))"
      "\<And>k. k \<notin> set (map fst stages) \<Longrightarrow> dict_get (stage_status (collector s')) k = dict_get (stage_status (collector s1)) k"
    by blast
  have rec: "outcome_recorded (collector s') (n, f (content_object s) rid cfg)"
    using s1(5) s'(5) [OF nn] outcome_recorded_cong [of "collector s'" "(n, f (content_object s) rid cfg)" "collector s1"]
    by simp
  show ?case
    using p s1 s' rec by simp
qed

lemma run_one_stage_artifact:
  assumes "run_one_stage n f rid cfg s = Inr s1"
  shows "content_object s1 = artifact_after (f (content_object s) rid cfg)"
proof (cases "f (content_object s) rid cfg")
  case (StageReturned co r)
  obtain x c where a: "add_stage_result (collector s) r = (x, c)"
    by (cases "add_stage_result (collector s) r")
  obtain y c2 where b: "add_stage_result c (unhandled_exception_result n (projl x)) = (y, c2)"
    by (cases "add_stage_result c (unhandled_exception_result n (projl x))")
  show ?thesis
    using assms StageReturned a b
    by (cases x; cases y) (auto simp: run_one_stage_def handle_stage_exception_def Let_def)
next
  case (StageRaised co exc)
  obtain y c2 where b: "add_stage_result (collector s) (unhandled_exception_result n exc) = (y, c2)"
    by (cases "add_stage_result (collector s) (unhandled_exception_result n exc)")
  show ?thesis
    using assms StageRaised b
    by (cases y) (auto simp: run_one_stage_def handle_stage_exception_def Let_def)
qed

lemma run_stages_traceable:
  assumes "\<forall>(n, f) \<in> set stages. \<forall>co rid cfg. traceable co \<longrightarrow> traceable (artifact_after (f co rid cfg))"
    and "traceable (content_object s)"
    and "run_stages stages rid cfg s = Inr s'"
  shows "traceable (content_object s')"
  using assms
proof (induction stages arbitrary: s)
  case Nil
  then show ?case by simp
next
  case (Cons p stages)
  obtain n f where p: "p = (n, f)" by (cases p)
  from Cons.prems(3) p obtain s1 where
    s1: "run_one_stage n f rid cfg s = Inr s1" and rest: "run_stages stages rid cfg s1 = Inr s'"
    by (cases "run_one_stage n f rid cfg s") auto
  have "traceable (content_object s1)"
    using run_one_stage_artifact [OF s1] Cons.prems(1,2) p by simp
  with Cons.IH [of s1] Cons.prems(1) rest show ?case by simp
qed

lemma stage_outcomes_traceable:
  assumes "\<forall>(n, f) \<in> set stages. \<forall>co rid cfg. traceable co \<longrightarrow> traceable (artifact_after (f co rid cfg))"
    and "traceable co"
  shows "list_all (\<lambda>(n, outcome). traceable (artifact_after outcome)) (stage_outcomes stages rid cfg co)"
  using assms
proof (induction stages arbitrary: co)
  case Nil
  then show ?case by simp
next
  case (Cons p stages)
  obtain n f where p: "p = (n, f)" by (cases p)
  have 1: "traceable (artifact_after (f co rid cfg))"
    using Cons.prems p by simp
  from Cons.IH [OF _ 1] Cons.prems(1) 1 p show ?case by simp
qed

lemma STAGES_traceable:
  "\<forall>(n, f) \<in> set (STAGES pe). \<forall>co rid cfg. traceable co \<longrightarrow> traceable (artifact_after (f co rid cfg))"
  by (simp add: STAGES_def validate_input_traceable fetch_metadata_traceable
      fetch_transcript_traceable analyze_structure_traceable analyze_semantics_traceable)

lemma initial_content_object_traceable: "traceable (initial_content_object pe url)"
  by (simp add: traceable_def has_identity_def has_source_url_def initial_content_object_def
      dict_get_def dict_has_def)

lemma dict_has_iff: "dict_has d k = (dict_get d k \<noteq> None)"
  by (induction d) (auto simp: dict_has_def dict_get_def)

lemma collect_fields_get:
  "collect_fields fs = Some d \<Longrightarrow> dict_get fs k = Some x \<Longrightarrow> \<exists>v. x = Some v \<and> dict_get d k = Some v"
  by (induction fs arbitrary: d rule: collect_fields.induct)
     (auto simp: dict_get_def split: option.splits if_splits)

lemma exclude_none_get:
  "dict_get d k = Some v \<Longrightarrow> v \<noteq> PNone \<Longrightarrow> dict_get (exclude_none d) k = Some v"
  by (induction d) (auto simp: dict_get_def exclude_none_def split: if_splits)

lemma field_with_default_made:
  "field_with_default coerce mk dflt d k = Some a \<Longrightarrow> \<exists>x. a = mk x"
  by (auto simp: field_with_default_def split: option.splits)

lemma field_required_made:
  "field_required coerce mk d k = Some a \<Longrightarrow> \<exists>x. a = mk x"
  by (auto simp: field_required_def split: option.splits)

lemma Identity_validate_dump_keys:
  assumes "Identity_validate_dump pe v = Some d"
  shows "dict_has d ''content_id'' \<and> dict_has d ''workflow_run_id''
         \<and> dict_has d ''created_at'' \<and> dict_has d ''workflow_version''"
proof -
  from assms obtain d0 z where v: "v = PDict d0"
    and z: "collect_fields
              [(''content_id'',
                  field_with_default (coerce_uuid pe) (PObj ''UUID'') (uuid4_content_id pe) d0 ''content_id''),
               (''workflow_run_id'',
                  field_with_default (coerce_uuid pe) (PObj ''UUID'') (uuid4_workflow_run_id pe) d0 ''workflow_run_id''),
               (''created_at'',
                  field_with_default (coerce_datetime pe) (PObj ''datetime'') (utcnow pe) d0 ''created_at''),
               (''workflow_version'',
                  field_with_default (coerce_str pe) PStr ''0.1.0'' d0 ''workflow_version'')] = Some z"
    and d: "d = exclude_none z"
    by (cases v) (auto simp: Identity_validate_dump_def)
  have 1: "dict_has d ''content_id''"
    using collect_fields_get [OF z, of "''content_id''"] d
    by (auto simp: dict_get_def [of "_ # _"] dict_has_iff dest!: field_with_default_made
             dest: exclude_none_get)
  have 2: "dict_has d ''workflow_run_id''"
    using collect_fields_get [OF z, of "''workflow_run_id''"] d
    by (auto simp: dict_get_def [of "_ # _"] dict_has_iff dest!: field_with_default_made
             dest: exclude_none_get)
  have 3: "dict_has d ''created_at''"
    using collect_fields_get [OF z, of "''created_at''"] d
    by (auto simp: dict_get_def [of "_ # _"] dict_has_iff dest!: field_with_default_made
             dest: exclude_none_get)
  have 4: "dict_has d ''workflow_version''"
    using collect_fields_get [OF z, of "''workflow_version''"] d
    by (auto simp: dict_get_def [of "_ # _"] dict_has_iff dest!: field_with_default_made
             dest: exclude_none_get)
  from 1 2 3 4 show ?thesis by simp
qed

lemma Source_validate_dump_url:
  assumes "Source_validate_dump pe v = Some d"
  shows "\<exists>u. dict_get d ''url'' = Some (PStr u)"
proof -
  from assms obtain d0 z where v: "v = PDict d0"
    and z: "collect_fields
            [(''source_type'', field_with_default (coerce_str pe) PStr ''youtube'' d0 ''source_type''),
             (''url'', field_required (coerce_str pe) PStr d0 ''url''),
             (''video_id'', field_optional (coerce_str pe) PStr d0 ''video_id''),
             (''title'', field_optional (coerce_str pe) PStr d0 ''title''),
             (''channel_name'', field_optional (coerce_str pe) PStr d0 ''channel_name''),
             (''duration_seconds'', field_optional (coerce_int pe) PInt d0 ''duration_seconds''),
             (''published_at'', field_optional (coerce_datetime pe) (PObj ''datetime'') d0 ''published_at''),
             (''language'', field_optional (coerce_str pe) PStr d0 ''language''),
             (''captions_available'', field_optional (coerce_bool pe) PBool d0 ''captions_available'')] = Some z"
    and d: "d = exclude_none z"
    by (cases v) (auto simp: Source_validate_dump_def)
  show ?thesis
    using collect_fields_get [OF z, of "''url''"] d
    by (auto simp: dict_get_def [of "_ # _"] dest!: field_required_made dest: exclude_none_get)
qed

lemma ContentObject_validate_dump_traceable:
  assumes "ContentObject_validate_dump pe co = Inr dumped"
  shows "traceable dumped"
proof -
  let ?fs = "[(''identity'',
                 (case dict_get co ''identity'' of
                    None \<Rightarrow> None
                  | Some v \<Rightarrow> map_option PDict (Identity_validate_dump pe v))),
              (''source'',
                 (case dict_get co ''source'' of
                    None \<Rightarrow> None
                  | Some v \<Rightarrow> map_option PDict (Source_validate_dump pe v))),
              (''raw'', section_validate_dump pe co ''raw''),
              (''structure'', section_validate_dump pe co ''structure''),
              (''semantics'', section_validate_dump pe co ''semantics''),
              (''diagnostics'', section_validate_dump pe co ''diagnostics'')]"
  from assms have z: "collect_fields ?fs = Some dumped"
    by (auto simp: ContentObject_validate_dump_def split: option.splits)
  have "has_identity dumped"
    using collect_fields_get [OF z, of "''identity''"]
    by (auto simp: dict_get_def [of "_ # _"] has_identity_def split: option.splits
             dest: Identity_validate_dump_keys)
  moreover have "has_source_url dumped"
    using collect_fields_get [OF z, of "''source''"]
    by (auto simp: dict_get_def [of "_ # _"] has_source_url_def split: option.splits
             dest: Source_validate_dump_url)
  ultimately show ?thesis by (simp add: traceable_def)
qed

lemma run_ingestion_with_returns:
  assumes "run_stages stages (uuid4_run_id pe) (config_or_empty config) (initial_run_state pe url) = Inr s"
  shows "\<exists>artifact event. run_ingestion_with stages pe url config = Inr (artifact, logged s @ [event])
            \<and> event_type event \<noteq> ''start''
            \<and> (artifact = dict_set (content_object s) ''diagnostics''
                             (PDict (fst (build_diagnostics (set_iteration pe) (collector s))))
                \<or> ContentObject_validate_dump pe
                     (dict_set (content_object s) ''diagnostics''
                        (PDict (fst (build_diagnostics (set_iteration pe) (collector s))))) = Inr artifact)"
  using assms
  by (cases "ContentObject_validate_dump pe
               (dict_set (content_object s) ''diagnostics''
                  (PDict (fst (build_diagnostics (set_iteration pe) (collector s)))))")
     (simp_all add: run_ingestion_with_def Let_def)

lemma initial_run_state_facts:
  "stage_status (collector (initial_run_state pe url)) = []"
  "started_stages (logged (initial_run_state pe url)) = []"
  "content_object (initial_run_state pe url) = initial_content_object pe url"
  by (simp_all add: initial_run_state_def DiagnosticsCollector_init_def started_stages_def)



text \<open>
  Claim C2. In every environment, for every reference and configuration: the artifact
  that \<open>run_ingestion\<close> creates has the \<open>identity\<close> section with its four fields and a
  string at \<open>source.url\<close>; the run of the five stages returns an artifact, and that
  artifact has them, whether final validation accepted it or not; and every stage,
  whether it returned or raised, left an artifact that has them.
\<close>

theorem run_ingestion_keeps_identity_and_source_url:
  "has_identity (initial_content_object pe url)
   \<and> has_source_url (initial_content_object pe url)
   \<and> (case run_ingestion pe url config of
         Inr (artifact, events) \<Rightarrow> has_identity artifact \<and> has_source_url artifact
       | Inl e \<Rightarrow> False)
   \<and> list_all (\<lambda>(name, outcome). has_identity (artifact_after outcome)
                                \<and> has_source_url (artifact_after outcome))
       (stage_outcomes (STAGES pe) (uuid4_run_id pe) (config_or_empty config)
          (initial_content_object pe url))"
proof -
  have fresh: "\<forall>n \<in> set (map fst (STAGES pe)).
                 \<not> dict_has (stage_status (collector (initial_run_state pe url))) n"
    by (simp add: initial_run_state_facts dict_has_def)
  from run_stages_ok [OF STAGES_distinct STAGES_own_names fresh,
                      of "uuid4_run_id pe" "config_or_empty config"]
  obtain s where s:
    "run_stages (STAGES pe) (uuid4_run_id pe) (config_or_empty config) (initial_run_state pe url) = Inr s"
    by blast
  have t0: "traceable (content_object (initial_run_state pe url))"
    by (simp add: initial_run_state_facts initial_content_object_traceable)
  have ts: "traceable (content_object s)"
    by (rule run_stages_traceable [OF STAGES_traceable t0 s])
  let ?co = "dict_set (content_object s) ''diagnostics''
               (PDict (fst (build_diagnostics (set_iteration pe) (collector s))))"
  have tco: "traceable ?co"
    using ts by (simp add: traceable_dict_set_other)
  from run_ingestion_with_returns [OF s] obtain artifact event where
    r: "run_ingestion_with (STAGES pe) pe url config = Inr (artifact, logged s @ [event])"
      "artifact = ?co \<or> ContentObject_validate_dump pe ?co = Inr artifact"
    by blast
  have "traceable artifact"
    using r(2) tco ContentObject_validate_dump_traceable by blast
  moreover have "list_all (\<lambda>(name, outcome). traceable (artifact_after outcome))
       (stage_outcomes (STAGES pe) (uuid4_run_id pe) (config_or_empty config)
          (initial_content_object pe url))"
    by (rule stage_outcomes_traceable [OF STAGES_traceable initial_content_object_traceable])
  ultimately show ?thesis
    using r(1) initial_content_object_traceable [of pe url]
    by (simp add: run_ingestion_def traceable_def)
qed

end
